theory Spec2Isabelle
  imports Complex_Main
begin

section \<open>JavaScript strings\<close>

text \<open>
  A JavaScript string is represented by the bytes of its UTF-8 encoding, as a HOL
  \<open>string\<close>. Every separator and prefix the program tests for is ASCII, and UTF-8 never
  uses an ASCII byte inside the encoding of another character, so \<open>split\<close>,
  \<open>startsWith\<close>, \<open>slice\<close> after an ASCII prefix and \<open>===\<close> act on the bytes as they
  act on the code units.
\<close>

text \<open>\<open>s.split(sep)\<close> for a separator of one character: never empty.\<close>

fun split_on :: "char \<Rightarrow> string \<Rightarrow> string list" where
  "split_on sep [] = [[]]"
| "split_on sep (c # cs) =
     (if c = sep then [] # split_on sep cs
      else (case split_on sep cs of
              [] \<Rightarrow> [[c]]
            | s # ss \<Rightarrow> (c # s) # ss))"

text \<open>\<open>xs[i]\<close> on an array: \<open>undefined\<close> (here \<open>None\<close>) out of range.\<close>

fun nth_opt :: "'a list \<Rightarrow> nat \<Rightarrow> 'a option" where
  "nth_opt [] i = None"
| "nth_opt (x # xs) 0 = Some x"
| "nth_opt (x # xs) (Suc i) = nth_opt xs i"

definition startsWith :: "string \<Rightarrow> string \<Rightarrow> bool" where
  "startsWith s p = (take (length p) s = p)"

text \<open>
  \<open>toLowerCase\<close> on the ASCII letters. The program only looks the lowered string up
  among ASCII words without the letter k (jpg, jpeg, png, gif, webp, bmp, svg and the two
  inherited keys below), and a string with a character outside ASCII never lowers to one
  of them, so the lookups agree with JavaScript on every string.
\<close>

definition lower_char :: "char \<Rightarrow> char" where
  "lower_char c =
     (case map_of (zip ''ABCDEFGHIJKLMNOPQRSTUVWXYZ'' ''abcdefghijklmnopqrstuvwxyz'') c of
        Some l \<Rightarrow> l
      | None \<Rightarrow> c)"

definition toLowerCase :: "string \<Rightarrow> string" where
  "toLowerCase s = map lower_char s"

text \<open>
  \<open>trim\<close> removes the WhiteSpace and LineTerminator characters of ECMAScript from both
  ends; \<open>white_space\<close> lists their UTF-8 encodings (U+0009 to U+000D, U+0020, U+00A0,
  U+1680, U+2000 to U+200A, U+2028, U+2029, U+202F, U+205F, U+3000, U+FEFF).
\<close>

definition white_space :: "string list" where
  "white_space =
     [[CHR 0x09], [CHR 0x0A], [CHR 0x0B], [CHR 0x0C], [CHR 0x0D], [CHR 0x20],
      [CHR 0xC2, CHR 0xA0], [CHR 0xE1, CHR 0x9A, CHR 0x80],
      [CHR 0xE2, CHR 0x80, CHR 0x80], [CHR 0xE2, CHR 0x80, CHR 0x81],
      [CHR 0xE2, CHR 0x80, CHR 0x82], [CHR 0xE2, CHR 0x80, CHR 0x83],
      [CHR 0xE2, CHR 0x80, CHR 0x84], [CHR 0xE2, CHR 0x80, CHR 0x85],
      [CHR 0xE2, CHR 0x80, CHR 0x86], [CHR 0xE2, CHR 0x80, CHR 0x87],
      [CHR 0xE2, CHR 0x80, CHR 0x88], [CHR 0xE2, CHR 0x80, CHR 0x89],
      [CHR 0xE2, CHR 0x80, CHR 0x8A], [CHR 0xE2, CHR 0x80, CHR 0xA8],
      [CHR 0xE2, CHR 0x80, CHR 0xA9], [CHR 0xE2, CHR 0x80, CHR 0xAF],
      [CHR 0xE2, CHR 0x81, CHR 0x9F], [CHR 0xE3, CHR 0x80, CHR 0x80],
      [CHR 0xEF, CHR 0xBB, CHR 0xBF]]"

text \<open>The first entry of \<open>ws\<close> that \<open>s\<close> starts with, if any.\<close>

fun leading :: "string list \<Rightarrow> string \<Rightarrow> string option" where
  "leading [] s = None"
| "leading (w # ws) s = (if startsWith s w then Some w else leading ws s)"

text \<open>
  Dropping a leading white-space character shortens the string, so the recursion is on a
  bound of the length.
\<close>

fun trim_front :: "string list \<Rightarrow> nat \<Rightarrow> string \<Rightarrow> string" where
  "trim_front ws 0 s = s"
| "trim_front ws (Suc n) s =
     (case leading ws s of
        None \<Rightarrow> s
      | Some w \<Rightarrow> trim_front ws n (drop (length w) s))"

definition trimStart :: "string \<Rightarrow> string" where
  "trimStart s = trim_front white_space (length s) s"

definition trimEnd :: "string \<Rightarrow> string" where
  "trimEnd s = rev (trim_front (map rev white_space) (length s) (rev s))"

definition trim :: "string \<Rightarrow> string" where
  "trim s = trimEnd (trimStart s)"

text \<open>\<open>xs.join(sep)\<close> on an array of strings.\<close>

fun join :: "string \<Rightarrow> string list \<Rightarrow> string" where
  "join sep [] = []"
| "join sep [x] = x"
| "join sep (x # y # ys) = x @ sep @ join sep (y # ys)"

section \<open>JavaScript values\<close>

text \<open>
  The values \<open>JSON.parse\<close> and \<open>response.json()\<close> produce. An object keeps its
  members in order; where a key occurs twice the last one is read. \<open>undefined\<close> is
  \<open>None\<close> of \<open>json option\<close>.
\<close>

datatype json =
    JNull
  | JBool bool
  | JNum rat
  | JString string
  | JArray "json list"
  | JObject "(string \<times> json) list"

text \<open>The truth value \<open>if (v)\<close>, \<open>!v\<close> and \<open>v || w\<close> test.\<close>

fun truthy :: "json option \<Rightarrow> bool" where
  "truthy None = False"
| "truthy (Some JNull) = False"
| "truthy (Some (JBool b)) = b"
| "truthy (Some (JNum n)) = (n \<noteq> 0)"
| "truthy (Some (JString s)) = (s \<noteq> [])"
| "truthy (Some (JArray xs)) = True"
| "truthy (Some (JObject kvs)) = True"

text \<open>
  \<open>v.name\<close> on a value that is neither \<open>null\<close> nor \<open>undefined\<close>, for the names the
  program reads (choices, delta, content, finish_reason, message, error, imageType,
  confidence, reason): none of them is a property of a boolean, a number, a string or an
  array, nor inherited by an object.
\<close>

fun property :: "string \<Rightarrow> json \<Rightarrow> json option" where
  "property name (JObject kvs) = map_of (rev kvs) name"
| "property name v = None"

text \<open>
  \<open>v[0]\<close> on such a value. On a string it is the first character, of which only the
  named properties are read afterwards, and a string has none of them.
\<close>

fun item0 :: "json \<Rightarrow> json option" where
  "item0 (JArray xs) = nth_opt xs 0"
| "item0 (JObject kvs) = map_of (rev kvs) ''0''"
| "item0 (JString s) = (if s = [] then None else Some (JString (take 1 s)))"
| "item0 v = None"

text \<open>Optional chaining \<open>v?.p\<close>: \<open>undefined\<close> when \<open>v\<close> is \<open>null\<close> or \<open>undefined\<close>.\<close>

fun chain :: "(json \<Rightarrow> json option) \<Rightarrow> json option \<Rightarrow> json option" where
  "chain p None = None"
| "chain p (Some JNull) = None"
| "chain p (Some v) = p v"

text \<open>
  \<open>ToString(v)\<close>, which a template literal, \<open>new Error\<close> and \<open>JSON.parse\<close> apply to
  their argument, and \<open>+=\<close> on a string to its right side (for these values its
  conversion ends in the same \<open>toString\<close>). It throws a TypeError, here \<open>None\<close>, on an
  object with an own key \<open>toString\<close>: after \<open>JSON.parse\<close> the value of that key is never
  callable, and \<open>valueOf\<close> gives the object back. An object without that key inherits
  the \<open>toString\<close> that gives \<open>[object Object]\<close>. An array joins the texts of its
  elements, \<open>null\<close> as the empty string, and throws when one of them throws. How a
  number is written is left to the platform (\<open>num\<close>).
\<close>

fun to_string :: "(rat \<Rightarrow> string) \<Rightarrow> json \<Rightarrow> string option" where
  "to_string num JNull = Some ''null''"
| "to_string num (JBool b) = Some (if b then ''true'' else ''false'')"
| "to_string num (JNum n) = Some (num n)"
| "to_string num (JString s) = Some s"
| "to_string num (JArray xs) =
     map_option (join '','')
       (those (map (\<lambda>x. if x = JNull then Some [] else to_string num x) xs))"
| "to_string num (JObject kvs) =
     (if map_of kvs ''toString'' = None then Some ''[object Object]'' else None)"

definition ToString :: "(rat \<Rightarrow> string) \<Rightarrow> json option \<Rightarrow> string option" where
  "ToString num v = (case v of None \<Rightarrow> Some ''undefined'' | Some x \<Rightarrow> to_string num x)"

text \<open>
  What the program takes from its platform: \<open>JSON.parse\<close> (\<open>None\<close> when it throws), the
  text of a number, and the two variables of \<open>import.meta.env\<close>.
\<close>

record platform =
  JSON_parse :: "string \<Rightarrow> json option"
  Number_toString :: "rat \<Rightarrow> string"
  VITE_GEMINI_API_KEY :: "string option"
  VITE_GEMINI_BASE_URL :: "string option"

section \<open>Messages, requests and responses\<close>

datatype detail = Auto | Low | High

datatype role = System | User | Assistant

text \<open>
  The value of a \<open>mimeTypes[...]\<close> lookup: a media type, or, for the keys
  \<open>constructor\<close> and \<open>__proto__\<close>, what the object literal inherits.
\<close>

datatype mime = Mime string | Inherited string

text \<open>
  An image reference of a message: a URL given by the caller, or the template
  \<open>data:${mimeType};base64,${base64}\<close> with the two values it interpolates.
\<close>

datatype image_url = Url string | DataUrl mime "string option"

text \<open>
  The text of a message part: a string of the caller, or one of the fixed prompts of
  \<open>gemini-api.ts\<close> with the texts it interpolates (the text read from the image and the
  user's allergens, joined).
\<close>

datatype prompt =
    Text string
  | TypePrompt
  | ExtractIngredientsPrompt
  | ExtractMenuPrompt
  | IngredientsPrompt string string
  | MenuPrompt string string
  | FoodPrompt string

datatype ContentPart = TextContent prompt | ImageContent image_url detail

datatype content = Plain prompt | Parts "ContentPart list"

record Message =
  role :: role
  content :: content

datatype thinking_type = Enabled | Disabled | AutoThinking

record ThinkingConfig =
  thinking_type :: thinking_type
  budget_tokens :: "int option"
  include_thoughts :: "bool option"

record RequestBody =
  req_model :: string
  req_messages :: "Message list"
  req_stream :: bool
  req_temperature :: rat
  req_max_tokens :: int
  req_top_p :: "rat option"
  req_thinking :: "ThinkingConfig option"
  req_user :: "string option"
  req_response_format :: "string option"

text \<open>
  A call of \<open>fetch\<close>: the plain \<open>fetch(url)\<close> of an image, or the POST of a chat
  completion with its URL, its bearer token and its body.
\<close>

datatype request = GET string | POST string string RequestBody

text \<open>
  A blob: its \<open>type\<close> and what \<open>FileReader.readAsDataURL\<close> gives for it (\<open>None\<close>: the
  reader fires \<open>onerror\<close>).
\<close>

record blob =
  blob_type :: string
  dataURL :: "string option"

text \<open>
  The reader of a response body, with the decoder: the decoded text of each read, in
  order, and whether the stream then closes (\<open>done\<close>) or the read is rejected.
\<close>

record body_reader =
  reads :: "string list"
  rejects :: bool

text \<open>
  A response: \<open>ok\<close>, \<open>status\<close>, \<open>statusText\<close>, what \<open>json()\<close> and \<open>blob()\<close> resolve to
  (\<open>None\<close>: rejected) and the reader of \<open>body\<close> (\<open>None\<close>: no body).
\<close>

record response =
  ok :: bool
  status :: nat
  statusText :: string
  json_body :: "json option"
  blob_body :: "blob option"
  body :: "body_reader option"

datatype fetched = Rejected | Resolved response

text \<open>
  The errors the program throws, by the place that throws them; the comment gives the
  message or the origin.
\<close>

datatype error =
    ApiKeyRequired \<comment> \<open>'API key is required', both modules\<close>
  | CannotLoadImage \<comment> \<open>thrown by the catch of convertImageToBase64\<close>
  | FileReaderError \<comment> \<open>the event FileReader rejects with\<close>
  | FetchFailed \<comment> \<open>the rejection of fetch\<close>
  | ReadFailed \<comment> \<open>the rejection of reader.read()\<close>
  | BodyNotJSON \<comment> \<open>the rejection of response.json()\<close>
  | TypeError \<comment> \<open>a property read on null\<close>
  | RequestFailed nat string \<comment> \<open>'API request failed: status statusText'\<close>
  | RequestFailedWith nat string string \<comment> \<open>the same, '. ' and the provider's message\<close>
  | ProviderError string \<comment> \<open>the provider's message alone\<close>
  | NoContent \<comment> \<open>'No content in API response'\<close>
  | InvalidJSON \<comment> \<open>the content is not valid JSON\<close>
  | BodyNotReadable \<comment> \<open>'Response body is not readable'\<close>
  | InvalidImageSource \<comment> \<open>'Invalid image source: must be a valid URL or base64 string'\<close>
  | UnsupportedFormat \<comment> \<open>'Unsupported image format. Supported formats: ...'\<close>
  | EmptyPrompt \<comment> \<open>'Prompt must be a non-empty string'\<close>
  | EmptyMessages \<comment> \<open>'Messages array must not be empty'\<close>
  | InvalidThinkingBudget \<comment> \<open>'max_tokens must be greater than thinking.budget_tokens'\<close>

text \<open>
  What a call does to the outside, in order: the requests it issues and the callbacks it
  invokes. The network answers a request knowing what happened before it.
\<close>

datatype event = Fetch request | OnChunk json | OnComplete | OnError error

type_synonym trace = "event list"

type_synonym network = "trace \<Rightarrow> request \<Rightarrow> fetched"

definition fetch :: "network \<Rightarrow> request \<Rightarrow> trace \<Rightarrow> fetched \<times> trace" where
  "fetch net req t = (net t req, t @ [Fetch req])"

section \<open>The encoder (gemini-api.ts)\<close>

definition mimeTypes :: "string \<Rightarrow> mime option" where
  "mimeTypes key =
     (if key = ''jpg'' then Some (Mime ''image/jpeg'')
      else if key = ''jpeg'' then Some (Mime ''image/jpeg'')
      else if key = ''png'' then Some (Mime ''image/png'')
      else if key = ''gif'' then Some (Mime ''image/gif'')
      else if key = ''webp'' then Some (Mime ''image/webp'')
      else if key = ''bmp'' then Some (Mime ''image/bmp'')
      else if key = ''svg'' then Some (Mime ''image/svg+xml'')
      else if key = ''constructor'' \<or> key = ''__proto__'' then Some (Inherited key)
      else None)"

text \<open>The group of \<open>/^data:([^;,]+)/\<close> on a string that starts with \<open>data:\<close>.\<close>

definition data_match :: "string \<Rightarrow> string option" where
  "data_match url =
     (let g = takeWhile (\<lambda>c. c \<noteq> CHR '';'' \<and> c \<noteq> CHR '','') (drop 5 url)
      in if g = [] then None else Some g)"

definition extension_mime :: "string \<Rightarrow> mime" where
  "extension_mime url =
     (let extension = hd (split_on CHR ''?'' (toLowerCase (last (split_on CHR ''.'' url))))
      in case mimeTypes extension of
           Some m \<Rightarrow> m
         | None \<Rightarrow> Mime ''image/jpeg'')"

definition getMimeTypeFromUrl :: "string \<Rightarrow> mime" where
  "getMimeTypeFromUrl url =
     (if startsWith url ''data:'' then
        (case data_match url of
           Some m \<Rightarrow> Mime m
         | None \<Rightarrow> extension_mime url)
      else extension_mime url)"

record EncodedImage =
  base64 :: "string option"
  mimeType :: mime

definition convertImageToBase64 ::
  "network \<Rightarrow> string \<Rightarrow> trace \<Rightarrow> (error + EncodedImage) \<times> trace" where
  "convertImageToBase64 net url t =
     (if startsWith url ''data:'' then
        (Inr \<lparr>base64 = nth_opt (split_on CHR '','' url) 1,
              mimeType = getMimeTypeFromUrl url\<rparr>, t)
      else
        (case fetch net (GET url) t of
           (Rejected, t1) \<Rightarrow> (Inl CannotLoadImage, t1)
         | (Resolved r, t1) \<Rightarrow>
             (case blob_body r of
                None \<Rightarrow> (Inl CannotLoadImage, t1)
              | Some b \<Rightarrow>
                  (case dataURL b of
                     None \<Rightarrow> (Inl FileReaderError, t1)
                   | Some res \<Rightarrow>
                       (Inr \<lparr>base64 = nth_opt (split_on CHR '','' res) 1,
                             mimeType = (if blob_type b \<noteq> [] then Mime (blob_type b)
                                         else getMimeTypeFromUrl url)\<rparr>, t1)))))"

section \<open>The transport (gemini-api.ts)\<close>

text \<open>
  The options of a call. \<open>onError\<close> and \<open>onComplete\<close> are callbacks of the caller:
  their invocations are the events \<open>OnError\<close> and \<open>OnComplete\<close> of the trace.
  \<open>detail\<close> is read by the image functions only. An options object may carry more
  fields than a function reads, so the functions take any extension of the record.
\<close>

record Options =
  apiKey :: string
  baseURL :: "string option"
  temperature :: "rat option"
  maxTokens :: "int option"
  detail :: "detail option"

text \<open>\<open>a || b\<close> on strings that may be \<open>undefined\<close>.\<close>

definition or_else :: "string option \<Rightarrow> string option \<Rightarrow> string option" where
  "or_else a b = (case a of Some (c # cs) \<Rightarrow> a | _ \<Rightarrow> b)"

definition default_baseURL :: string where
  "default_baseURL = ''https://meta-backend-sandbox.camscanner.com/us/''"

definition resolve_apiKey :: "platform \<Rightarrow> 'z Options_scheme \<Rightarrow> string option" where
  "resolve_apiKey plat options = or_else (Some (apiKey options)) (VITE_GEMINI_API_KEY plat)"

definition resolve_baseURL :: "platform \<Rightarrow> 'z Options_scheme \<Rightarrow> string" where
  "resolve_baseURL plat options =
     (case or_else (or_else (baseURL options) (VITE_GEMINI_BASE_URL plat))
             (Some default_baseURL) of
        Some u \<Rightarrow> u
      | None \<Rightarrow> [])"

text \<open>The \<open>catch\<close> of a transport: \<open>onError(errorObj); throw errorObj\<close>.\<close>

definition catch_onError :: "error \<Rightarrow> trace \<times> 'a \<Rightarrow> (error + 'b) \<times> trace \<times> 'a" where
  "catch_onError e st = (Inl e, fst st @ [OnError e], snd st)"

text \<open>
  The error of a response that is not \<open>ok\<close>: the provider's message replaces the
  default one when \<open>errorData.error?.message\<close> is truthy; a body that is not JSON, or
  that is \<open>null\<close>, leaves the default. \<open>new Error\<close> of a message without a text
  throws the TypeError instead, inside the \<open>try\<close> of the transport.
\<close>

definition http_error :: "platform \<Rightarrow> response \<Rightarrow> error" where
  "http_error plat r =
     (case json_body r of
        None \<Rightarrow> RequestFailed (status r) (statusText r)
      | Some JNull \<Rightarrow> RequestFailed (status r) (statusText r)
      | Some errorData \<Rightarrow>
          (let m = chain (property ''message'') (property ''error'' errorData)
           in if truthy m
              then (case ToString (Number_toString plat) m of
                      None \<Rightarrow> TypeError
                    | Some text \<Rightarrow> ProviderError text)
              else RequestFailed (status r) (statusText r)))"

text \<open>\<open>data.choices?.[0]?.message?.content\<close>, on a \<open>data\<close> that is not \<open>null\<close>.\<close>

definition message_content :: "json \<Rightarrow> json option" where
  "message_content data =
     chain (property ''content'')
       (chain (property ''message'') (chain item0 (property ''choices'' data)))"

text \<open>
  \<open>JSON.parse(content)\<close> stands in its own \<open>try\<close>: whatever it throws, also the
  TypeError of a content without a text, becomes the error of invalid JSON.
\<close>

definition callGeminiAPIForJSON ::
  "platform \<Rightarrow> network \<Rightarrow> Message list \<Rightarrow> 'z Options_scheme \<Rightarrow> trace \<Rightarrow> (error + json) \<times> trace" where
  "callGeminiAPIForJSON plat net msgs options t =
     (case resolve_apiKey plat options of
        None \<Rightarrow> (Inl ApiKeyRequired, t)
      | Some [] \<Rightarrow> (Inl ApiKeyRequired, t)
      | Some key \<Rightarrow>
          (let requestBody =
                 \<lparr>req_model = ''gemini-2.5-flash-preview-09-2025'',
                  req_messages = msgs,
                  req_stream = False,
                  req_temperature = (case temperature options of None \<Rightarrow> 3 / 10 | Some x \<Rightarrow> x),
                  req_max_tokens = (case maxTokens options of None \<Rightarrow> 4096 | Some n \<Rightarrow> n),
                  req_top_p = None, req_thinking = None, req_user = None,
                  req_response_format = Some ''json_object''\<rparr>
           in case fetch net
                     (POST (resolve_baseURL plat options @ ''v1/chat/completions'') key
                        requestBody) t of
                (Rejected, t1) \<Rightarrow> (Inl FetchFailed, t1 @ [OnError FetchFailed])
              | (Resolved r, t1) \<Rightarrow>
                  (if \<not> ok r then (Inl (http_error plat r), t1 @ [OnError (http_error plat r)])
                   else
                     (case json_body r of
                        None \<Rightarrow> (Inl BodyNotJSON, t1 @ [OnError BodyNotJSON])
                      | Some JNull \<Rightarrow> (Inl TypeError, t1 @ [OnError TypeError])
                      | Some data \<Rightarrow>
                          (if \<not> truthy (message_content data)
                           then (Inl NoContent, t1 @ [OnError NoContent])
                           else
                             (case ToString (Number_toString plat) (message_content data) of
                                None \<Rightarrow> (Inl InvalidJSON, t1 @ [OnError InvalidJSON])
                              | Some text \<Rightarrow>
                                  (case JSON_parse plat text of
                                     None \<Rightarrow> (Inl InvalidJSON, t1 @ [OnError InvalidJSON])
                                   | Some v \<Rightarrow> (Inr v, t1))))))))"

section \<open>The streaming transport\<close>

text \<open>
  \<open>parsed.choices?.[0]?.delta?.content\<close> and \<open>parsed.choices?.[0]?.finish_reason\<close>, on
  a \<open>parsed\<close> that is not \<open>null\<close>.
\<close>

definition delta_content :: "json \<Rightarrow> json option" where
  "delta_content parsed =
     chain (property ''content'')
       (chain (property ''delta'') (chain item0 (property ''choices'' parsed)))"

definition finish_reason :: "json \<Rightarrow> json option" where
  "finish_reason parsed =
     chain (property ''finish_reason'') (chain item0 (property ''choices'' parsed))"

text \<open>
  The state of a streaming call: the trace, and the state of the closure that
  \<open>onChunk\<close> updates. \<open>onChunk\<close> gives the new state of its closure, or \<open>None\<close> when
  it throws; \<open>onComplete\<close> and \<open>onError\<close> are taken not to throw.
\<close>

type_synonym 'a state = "trace \<times> 'a"

text \<open>The call of \<open>onChunk\<close>; the flag tells whether it returned.\<close>

definition call_onChunk ::
  "(json \<Rightarrow> 'a \<Rightarrow> 'a option) \<Rightarrow> json \<Rightarrow> 'a state \<Rightarrow> bool \<times> 'a state" where
  "call_onChunk onChunk c st =
     (case onChunk c (snd st) of
        None \<Rightarrow> (False, fst st @ [OnChunk c], snd st)
      | Some a \<Rightarrow> (True, fst st @ [OnChunk c], a))"

definition call_onComplete :: "'a state \<Rightarrow> 'a state" where
  "call_onComplete st = (fst st @ [OnComplete], snd st)"

text \<open>
  The \<open>try\<close> block of one frame. \<open>JSON.parse\<close> throwing, the property read on a
  \<open>parsed\<close> that is \<open>null\<close>, and \<open>onChunk\<close> throwing end in the \<open>catch\<close> that only
  warns; the finish reason is then not looked at.
\<close>

definition check_finish :: "json \<Rightarrow> 'a state \<Rightarrow> 'a state" where
  "check_finish parsed st = (if truthy (finish_reason parsed) then call_onComplete st else st)"

definition handle_data ::
  "platform \<Rightarrow> (json \<Rightarrow> 'a \<Rightarrow> 'a option) \<Rightarrow> string \<Rightarrow> 'a state \<Rightarrow> 'a state" where
  "handle_data plat onChunk data st =
     (case JSON_parse plat data of
        None \<Rightarrow> st
      | Some JNull \<Rightarrow> st
      | Some parsed \<Rightarrow>
          (case delta_content parsed of
             None \<Rightarrow> check_finish parsed st
           | Some c \<Rightarrow>
               if truthy (Some c) then
                 (case call_onChunk onChunk c st of
                    (False, st1) \<Rightarrow> st1
                  | (True, st1) \<Rightarrow> check_finish parsed st1)
               else check_finish parsed st))"

text \<open>
  The \<open>for\<close> loop over the complete lines of the buffer. The flag tells whether the
  loop left the function through the \<open>return\<close> of \<open>[DONE]\<close>.
\<close>

fun process_lines ::
  "platform \<Rightarrow> (json \<Rightarrow> 'a \<Rightarrow> 'a option) \<Rightarrow> string list \<Rightarrow> 'a state \<Rightarrow> bool \<times> 'a state" where
  "process_lines plat onChunk [] st = (False, st)"
| "process_lines plat onChunk (line # lines) st =
     (let trimmedLine = trim line
      in if trimmedLine = [] \<or> startsWith trimmedLine '':''
         then process_lines plat onChunk lines st
         else if startsWith trimmedLine ''data: ''
         then (let data = drop 6 trimmedLine
               in if data = ''[DONE]'' then (True, call_onComplete st)
                  else process_lines plat onChunk lines (handle_data plat onChunk data st))
         else process_lines plat onChunk lines st)"

text \<open>
  The \<open>while (true)\<close> loop over the reads. The recursion is on the reads that are left;
  after the last one the reader reports \<open>done\<close>, or rejects.
\<close>

fun read_loop ::
  "platform \<Rightarrow> (json \<Rightarrow> 'a \<Rightarrow> 'a option) \<Rightarrow> string list \<Rightarrow> bool \<Rightarrow> string \<Rightarrow> 'a state
     \<Rightarrow> (error + unit) \<times> 'a state" where
  "read_loop plat onChunk [] rej buffer st =
     (if rej then catch_onError ReadFailed st else (Inr (), call_onComplete st))"
| "read_loop plat onChunk (v # vs) rej buffer st =
     (let lines = split_on (CHR 0x0A) (buffer @ v)
      in case process_lines plat onChunk (butlast lines) st of
           (True, st1) \<Rightarrow> (Inr (), st1)
         | (False, st1) \<Rightarrow> read_loop plat onChunk vs rej (last lines) st1)"

definition callGeminiAPIForStream ::
  "platform \<Rightarrow> network \<Rightarrow> Message list \<Rightarrow> (json \<Rightarrow> 'a \<Rightarrow> 'a option) \<Rightarrow> 'z Options_scheme \<Rightarrow> 'a state
     \<Rightarrow> (error + unit) \<times> 'a state" where
  "callGeminiAPIForStream plat net msgs onChunk options st =
     (case resolve_apiKey plat options of
        None \<Rightarrow> (Inl ApiKeyRequired, st)
      | Some [] \<Rightarrow> (Inl ApiKeyRequired, st)
      | Some key \<Rightarrow>
          (let requestBody =
                 \<lparr>req_model = ''gemini-2.5-flash-preview-09-2025'',
                  req_messages = msgs,
                  req_stream = True,
                  req_temperature = (case temperature options of None \<Rightarrow> 7 / 10 | Some x \<Rightarrow> x),
                  req_max_tokens = (case maxTokens options of None \<Rightarrow> 4096 | Some n \<Rightarrow> n),
                  req_top_p = None, req_thinking = None, req_user = None,
                  req_response_format = None\<rparr>
           in case fetch net
                     (POST (resolve_baseURL plat options @ ''v1/chat/completions'') key
                        requestBody) (fst st) of
                (Rejected, t1) \<Rightarrow> catch_onError FetchFailed (t1, snd st)
              | (Resolved r, t1) \<Rightarrow>
                  (if \<not> ok r then catch_onError (http_error plat r) (t1, snd st)
                   else
                     (case body r of
                        None \<Rightarrow> catch_onError BodyNotReadable (t1, snd st)
                      | Some rd \<Rightarrow>
                          read_loop plat onChunk (reads rd) (rejects rd) [] (t1, snd st)))))"

section \<open>The analysis functions and the orchestrator (gemini-api.ts)\<close>

text \<open>The separator of \<open>userAllergens.join\<close>: U+3001, in UTF-8.\<close>

definition allergen_separator :: string where
  "allergen_separator = [CHR 0xE3, CHR 0x80, CHR 0x81]"

definition analyzeIngredientsAllergens ::
  "platform \<Rightarrow> network \<Rightarrow> string \<Rightarrow> string list \<Rightarrow> 'z Options_scheme \<Rightarrow> trace
     \<Rightarrow> (error + json) \<times> trace" where
  "analyzeIngredientsAllergens plat net ingredientsText userAllergens options t =
     callGeminiAPIForJSON plat net
       [\<lparr>role = User,
         content = Plain (IngredientsPrompt ingredientsText
                            (join allergen_separator userAllergens))\<rparr>]
       options t"

definition analyzeMenuRecommendations ::
  "platform \<Rightarrow> network \<Rightarrow> string \<Rightarrow> string list \<Rightarrow> 'z Options_scheme \<Rightarrow> trace
     \<Rightarrow> (error + json) \<times> trace" where
  "analyzeMenuRecommendations plat net menuText userAllergens options t =
     callGeminiAPIForJSON plat net
       [\<lparr>role = User,
         content = Plain (MenuPrompt menuText (join allergen_separator userAllergens))\<rparr>]
       options t"

definition analyzeFoodPhoto ::
  "platform \<Rightarrow> network \<Rightarrow> string \<Rightarrow> string list \<Rightarrow> 'z Options_scheme \<Rightarrow> trace
     \<Rightarrow> (error + json) \<times> trace" where
  "analyzeFoodPhoto plat net imageUrl userAllergens options t =
     (case convertImageToBase64 net imageUrl t of
        (Inl e, t1) \<Rightarrow> (Inl e, t1)
      | (Inr img, t1) \<Rightarrow>
          callGeminiAPIForJSON plat net
            [\<lparr>role = User,
              content = Parts
                [TextContent (FoodPrompt (join allergen_separator userAllergens)),
                 ImageContent (DataUrl (mimeType img) (base64 img))
                   (case detail options of None \<Rightarrow> High | Some d \<Rightarrow> d)]\<rparr>]
            options t1)"

record SmartAnalysisResult =
  imageType :: string
  confidence :: "json option"
  result :: json
  errorMessage :: "string option"

text \<open>The text before the reason in \<open>errorMessage\<close>: nine CJK characters, in UTF-8.\<close>

definition unknown_type_message :: string where
  "unknown_type_message =
     [CHR 0xE6, CHR 0x97, CHR 0xA0, CHR 0xE6, CHR 0xB3, CHR 0x95, CHR 0xE8, CHR 0xAF, CHR 0x86,
      CHR 0xE5, CHR 0x88, CHR 0xAB, CHR 0xE5, CHR 0x9B, CHR 0xBE, CHR 0xE7, CHR 0x89, CHR 0x87,
      CHR 0xE7, CHR 0xB1, CHR 0xBB, CHR 0xE5, CHR 0x9E, CHR 0x8B, CHR 0xE3, CHR 0x80, CHR 0x82]"

text \<open>The message of the two text-extraction stages: a prompt and the encoded image.\<close>

definition extractMessages :: "prompt \<Rightarrow> EncodedImage \<Rightarrow> Message list" where
  "extractMessages extractPrompt img =
     [\<lparr>role = User,
       content = Parts
         [TextContent extractPrompt,
          ImageContent (DataUrl (mimeType img) (base64 img)) High]\<rparr>]"

text \<open>
  The closure \<open>chunk => { text += chunk }\<close> of the two extraction stages; it throws on a
  chunk without a text.
\<close>

definition append_chunk :: "platform \<Rightarrow> json \<Rightarrow> string \<Rightarrow> string option" where
  "append_chunk plat chunk text =
     map_option (\<lambda>s. text @ s) (to_string (Number_toString plat) chunk)"

text \<open>
  The \<open>switch\<close> of \<open>smartAnalyzeImage\<close> on a \<open>typeResult\<close> that is not \<open>null\<close>. The
  \<open>catch\<close> of the function logs and throws again, so an error of a stage is the
  error of the call, and so is the TypeError of the template literal of \<open>errorMessage\<close>
  on a reason without a text.
\<close>

definition analyze_by_type ::
  "platform \<Rightarrow> network \<Rightarrow> string \<Rightarrow> string list \<Rightarrow> 'z Options_scheme \<Rightarrow> EncodedImage \<Rightarrow> json
     \<Rightarrow> trace \<Rightarrow> (error + SmartAnalysisResult) \<times> trace" where
  "analyze_by_type plat net imageUrl userAllergens options img typeResult t =
     (if property ''imageType'' typeResult = Some (JString ''ingredients'') then
        (case callGeminiAPIForStream plat net (extractMessages ExtractIngredientsPrompt img)
                (append_chunk plat) options (t, []) of
           (Inl e, t1, ingredientsText) \<Rightarrow> (Inl e, t1)
         | (Inr u, t1, ingredientsText) \<Rightarrow>
             (case analyzeIngredientsAllergens plat net ingredientsText userAllergens
                     options t1 of
                (Inl e, t2) \<Rightarrow> (Inl e, t2)
              | (Inr analysisResult, t2) \<Rightarrow>
                  (Inr \<lparr>imageType = ''ingredients'',
                        confidence = property ''confidence'' typeResult,
                        result = analysisResult, errorMessage = None\<rparr>, t2)))
      else if property ''imageType'' typeResult = Some (JString ''menu'') then
        (case callGeminiAPIForStream plat net (extractMessages ExtractMenuPrompt img)
                (append_chunk plat) options (t, []) of
           (Inl e, t1, menuText) \<Rightarrow> (Inl e, t1)
         | (Inr u, t1, menuText) \<Rightarrow>
             (case analyzeMenuRecommendations plat net menuText userAllergens options t1 of
                (Inl e, t2) \<Rightarrow> (Inl e, t2)
              | (Inr analysisResult, t2) \<Rightarrow>
                  (Inr \<lparr>imageType = ''menu'',
                        confidence = property ''confidence'' typeResult,
                        result = analysisResult, errorMessage = None\<rparr>, t2)))
      else if property ''imageType'' typeResult = Some (JString ''food'') then
        (case analyzeFoodPhoto plat net imageUrl userAllergens options t of
           (Inl e, t1) \<Rightarrow> (Inl e, t1)
         | (Inr analysisResult, t1) \<Rightarrow>
             (Inr \<lparr>imageType = ''food'',
                   confidence = property ''confidence'' typeResult,
                   result = analysisResult, errorMessage = None\<rparr>, t1))
      else
        (case ToString (Number_toString plat) (property ''reason'' typeResult) of
           None \<Rightarrow> (Inl TypeError, t)
         | Some reason \<Rightarrow>
             (Inr \<lparr>imageType = ''unknown'',
                   confidence = property ''confidence'' typeResult,
                   result = JNull,
                   errorMessage = Some (unknown_type_message @ reason)\<rparr>,
              t)))"

definition typeMessages :: "EncodedImage \<Rightarrow> 'z Options_scheme \<Rightarrow> Message list" where
  "typeMessages img options =
     [\<lparr>role = User,
       content = Parts
         [TextContent TypePrompt,
          ImageContent (DataUrl (mimeType img) (base64 img))
            (case detail options of None \<Rightarrow> Auto | Some d \<Rightarrow> d)]\<rparr>]"

definition smartAnalyzeImage ::
  "platform \<Rightarrow> network \<Rightarrow> string \<Rightarrow> string list \<Rightarrow> 'z Options_scheme \<Rightarrow> trace
     \<Rightarrow> (error + SmartAnalysisResult) \<times> trace" where
  "smartAnalyzeImage plat net imageUrl userAllergens options t =
     (case convertImageToBase64 net imageUrl t of
        (Inl e, t1) \<Rightarrow> (Inl e, t1)
      | (Inr img, t1) \<Rightarrow>
          (case callGeminiAPIForJSON plat net (typeMessages img options) options t1 of
             (Inl e, t2) \<Rightarrow> (Inl e, t2)
           | (Inr JNull, t2) \<Rightarrow> (Inl TypeError, t2)
           | (Inr typeResult, t2) \<Rightarrow>
               analyze_by_type plat net imageUrl userAllergens options img typeResult t2))"

section \<open>The image functions and the transports of llm.ts\<close>

text \<open>
  \<open>CallGeminiOptions\<close>, and \<open>ImageAnalysisOptions\<close> that extends it by \<open>detail\<close>: the
  fields of \<open>Options\<close> and the three below. The transports of this module read \<open>apiKey\<close>
  from the options alone.
\<close>

record CallGeminiOptions = Options +
  topP :: "rat option"
  thinking :: "ThinkingConfig option"
  user :: "string option"

datatype image_source = FromString string | FromBlob blob

definition supportedFormats :: "string list" where
  "supportedFormats = [''image/jpeg'', ''image/jpg'', ''image/png'', ''image/gif'', ''image/webp'']"

definition isValidImageFormat :: "string \<Rightarrow> bool" where
  "isValidImageFormat base64OrUrl =
     (if startsWith base64OrUrl ''data:'' then
        list_ex (\<lambda>format. startsWith base64OrUrl (''data:'' @ format)) supportedFormats
      else if startsWith base64OrUrl ''http://'' \<or> startsWith base64OrUrl ''https://'' then
        (let ext = toLowerCase (last (split_on CHR ''.'' base64OrUrl))
         in ext \<in> set [''jpg'', ''jpeg'', ''png'', ''gif'', ''webp''])
      else False)"

text \<open>
  \<open>thinking?.budget_tokens && thinking.budget_tokens >= maxTokens\<close>, with the default
  of \<open>maxTokens\<close>.
\<close>

definition budget_exceeds :: "CallGeminiOptions \<Rightarrow> bool" where
  "budget_exceeds options =
     (case thinking options of
        None \<Rightarrow> False
      | Some th \<Rightarrow>
          (case budget_tokens th of
             None \<Rightarrow> False
           | Some b \<Rightarrow>
               b \<noteq> 0 \<and> b \<ge> (case maxTokens options of None \<Rightarrow> 8192 | Some n \<Rightarrow> n)))"

text \<open>
  Here the provider's message is appended to the default one, in a template literal
  inside the inner \<open>try\<close>: a message without a text leaves the default.
\<close>

definition llm_http_error :: "platform \<Rightarrow> response \<Rightarrow> error" where
  "llm_http_error plat r =
     (case json_body r of
        None \<Rightarrow> RequestFailed (status r) (statusText r)
      | Some JNull \<Rightarrow> RequestFailed (status r) (statusText r)
      | Some errorData \<Rightarrow>
          (let m = chain (property ''message'') (property ''error'' errorData)
           in if truthy m
              then (case ToString (Number_toString plat) m of
                      None \<Rightarrow> RequestFailed (status r) (statusText r)
                    | Some text \<Rightarrow> RequestFailedWith (status r) (statusText r) text)
              else RequestFailed (status r) (statusText r)))"

text \<open>
  What \<open>callGemini25Pro\<close> and \<open>callGemini25ProWithHistory\<close> do once their arguments are
  checked: the same text in both, from the request body to the end of the read loop,
  which is also the loop of \<open>callGeminiAPIForStream\<close>. The check that \<open>onChunk\<close> is a
  function holds for every typed caller and is left out.
\<close>

definition send_stream ::
  "platform \<Rightarrow> network \<Rightarrow> Message list \<Rightarrow> (json \<Rightarrow> 'a \<Rightarrow> 'a option) \<Rightarrow> CallGeminiOptions
     \<Rightarrow> 'a state \<Rightarrow> (error + unit) \<times> 'a state" where
  "send_stream plat net msgs onChunk options st =
     (let requestBody =
            \<lparr>req_model = ''gemini-2.5-pro-002'',
             req_messages = msgs,
             req_stream = True,
             req_temperature = (case temperature options of None \<Rightarrow> 7 / 10 | Some x \<Rightarrow> x),
             req_max_tokens = (case maxTokens options of None \<Rightarrow> 8192 | Some n \<Rightarrow> n),
             req_top_p = topP options,
             req_thinking = thinking options,
             req_user = or_else (user options) None,
             req_response_format = None\<rparr>
      in case fetch net
                (POST ((case baseURL options of None \<Rightarrow> default_baseURL | Some u \<Rightarrow> u)
                       @ ''v1/chat/completions'') (apiKey options) requestBody) (fst st) of
           (Rejected, t1) \<Rightarrow> catch_onError FetchFailed (t1, snd st)
         | (Resolved r, t1) \<Rightarrow>
             (if \<not> ok r then catch_onError (llm_http_error plat r) (t1, snd st)
              else
                (case body r of
                   None \<Rightarrow> catch_onError BodyNotReadable (t1, snd st)
                 | Some rd \<Rightarrow>
                     read_loop plat onChunk (reads rd) (rejects rd) [] (t1, snd st))))"


definition callGemini25ProWithHistory ::
  "platform \<Rightarrow> network \<Rightarrow> Message list \<Rightarrow> (json \<Rightarrow> 'a \<Rightarrow> 'a option) \<Rightarrow> CallGeminiOptions
     \<Rightarrow> 'a state \<Rightarrow> (error + unit) \<times> 'a state" where
  "callGemini25ProWithHistory plat net msgs onChunk options st =
     (if apiKey options = [] then (Inl ApiKeyRequired, st)
      else if msgs = [] then (Inl EmptyMessages, st)
      else if budget_exceeds options then (Inl InvalidThinkingBudget, st)
      else send_stream plat net msgs onChunk options st)"

text \<open>\<open>fileToBase64\<close>: the data URL the reader gives, or its rejection.\<close>

definition fileToBase64 :: "blob \<Rightarrow> error + string" where
  "fileToBase64 file = (case dataURL file of None \<Rightarrow> Inl FileReaderError | Some res \<Rightarrow> Inr res)"

definition image_reference :: "image_source \<Rightarrow> error + string" where
  "image_reference imageSource =
     (case imageSource of
        FromString s \<Rightarrow>
          (if startsWith s ''http://'' \<or> startsWith s ''https://'' then Inr s
           else if startsWith s ''data:'' then Inr s
           else Inl InvalidImageSource)
      | FromBlob b \<Rightarrow> fileToBase64 b)"

definition analyzeImage ::
  "platform \<Rightarrow> network \<Rightarrow> image_source \<Rightarrow> string \<Rightarrow> (json \<Rightarrow> 'a \<Rightarrow> 'a option) \<Rightarrow> CallGeminiOptions
     \<Rightarrow> 'a state \<Rightarrow> (error + unit) \<times> 'a state" where
  "analyzeImage plat net imageSource prompt onChunk options st =
     (case image_reference imageSource of
        Inl e \<Rightarrow> (Inl e, st)
      | Inr imageUrl \<Rightarrow>
          (if \<not> isValidImageFormat imageUrl then (Inl UnsupportedFormat, st)
           else callGemini25ProWithHistory plat net
                  [\<lparr>role = User,
                    content = Parts
                      [TextContent (Text prompt),
                       ImageContent (Url imageUrl)
                         (case detail options of None \<Rightarrow> Auto | Some d \<Rightarrow> d)]\<rparr>]
                  onChunk options st))"

section \<open>A platform for the examples\<close>

text \<open>
  A reader of JSON documents for the worked examples: objects, arrays, strings without
  escapes, the three literals and decimal numbers without exponent. On these documents
  it gives what \<open>JSON.parse\<close> gives; it rejects every other text. The general theorems
  below hold for any platform and do not use it.
\<close>

definition is_space :: "char \<Rightarrow> bool" where
  "is_space c = (c = CHR 0x20 \<or> c = CHR 0x09 \<or> c = CHR 0x0A \<or> c = CHR 0x0D)"

definition digit_value :: "char \<Rightarrow> nat option" where
  "digit_value c = map_of (zip ''0123456789'' [0, 1, 2, 3, 4, 5, 6, 7, 8, 9]) c"

definition is_digit :: "char \<Rightarrow> bool" where
  "is_digit c = (digit_value c \<noteq> None)"

definition digits_value :: "string \<Rightarrow> nat" where
  "digits_value ds =
     foldl (\<lambda>a c. 10 * a + (case digit_value c of None \<Rightarrow> 0 | Some d \<Rightarrow> d)) 0 ds"

text \<open>The characters of a string up to its closing quote, and the text after it.\<close>

fun read_string :: "string \<Rightarrow> (string \<times> string) option" where
  "read_string [] = None"
| "read_string (c # cs) =
     (if c = CHR 0x22 then Some ([], cs)
      else if c = CHR 0x5C \<or> of_char c < (32 :: nat) then None
      else (case read_string cs of
              None \<Rightarrow> None
            | Some (s, rest) \<Rightarrow> Some (c # s, rest)))"

text \<open>An unsigned decimal number: digits, and digits after a point.\<close>

definition read_unsigned :: "string \<Rightarrow> (rat \<times> string) option" where
  "read_unsigned s =
     (let whole = takeWhile is_digit s; rest = dropWhile is_digit s
      in if whole = [] \<or> (length whole > 1 \<and> hd whole = CHR ''0'') then None
         else (case rest of
                 c # cs \<Rightarrow>
                   (if c = CHR ''.'' then
                      (let frac = takeWhile is_digit cs
                       in if frac = [] then None
                          else Some (of_nat (digits_value (whole @ frac))
                                       / of_nat (10 ^ length frac),
                                     dropWhile is_digit cs))
                    else Some (of_nat (digits_value whole), rest))
               | [] \<Rightarrow> Some (of_nat (digits_value whole), rest)))"

definition read_number :: "string \<Rightarrow> (json \<times> string) option" where
  "read_number s =
     (case s of
        [] \<Rightarrow> None
      | c # cs \<Rightarrow>
          (case (if c = CHR ''-'' then map_option (\<lambda>(n, r). (- n, r)) (read_unsigned cs)
                 else read_unsigned s) of
             None \<Rightarrow> None
           | Some (n, rest) \<Rightarrow>
               (case rest of
                  [] \<Rightarrow> Some (JNum n, rest)
                | d # ds \<Rightarrow> if d = CHR ''e'' \<or> d = CHR ''E'' then None else Some (JNum n, rest))))"

text \<open>
  A value, the rest of an array after a value, and the rest of an object after a
  member; the first argument bounds the depth of the calls.
\<close>

fun read_value :: "nat \<Rightarrow> string \<Rightarrow> (json \<times> string) option"
  and read_elements :: "nat \<Rightarrow> json list \<Rightarrow> string \<Rightarrow> (json \<times> string) option"
  and read_members :: "nat \<Rightarrow> (string \<times> json) list \<Rightarrow> string \<Rightarrow> (json \<times> string) option"
where
  "read_value 0 s = None"
| "read_value (Suc n) s =
     (case dropWhile is_space s of
        [] \<Rightarrow> None
      | c # cs \<Rightarrow>
          (if c = CHR 0x22 then map_option (\<lambda>(x, r). (JString x, r)) (read_string cs)
           else if startsWith (c # cs) ''true'' then Some (JBool True, drop 4 (c # cs))
           else if startsWith (c # cs) ''false'' then Some (JBool False, drop 5 (c # cs))
           else if startsWith (c # cs) ''null'' then Some (JNull, drop 4 (c # cs))
           else if c = CHR ''['' then
             (case dropWhile is_space cs of
                [] \<Rightarrow> None
              | d # ds \<Rightarrow> if d = CHR '']'' then Some (JArray [], ds)
                          else read_elements n [] cs)
           else if c = CHR ''{'' then
             (case dropWhile is_space cs of
                [] \<Rightarrow> None
              | d # ds \<Rightarrow> if d = CHR ''}'' then Some (JObject [], ds)
                          else read_members n [] cs)
           else read_number (c # cs)))"
| "read_elements 0 acc s = None"
| "read_elements (Suc n) acc s =
     (case read_value n s of
        None \<Rightarrow> None
      | Some (v, rest) \<Rightarrow>
          (case dropWhile is_space rest of
             [] \<Rightarrow> None
           | d # ds \<Rightarrow>
               if d = CHR '']'' then Some (JArray (acc @ [v]), ds)
               else if d = CHR '','' then read_elements n (acc @ [v]) ds
               else None))"
| "read_members 0 acc s = None"
| "read_members (Suc n) acc s =
     (case dropWhile is_space s of
        [] \<Rightarrow> None
      | q # qs \<Rightarrow>
          (if q \<noteq> CHR 0x22 then None
           else (case read_string qs of
                   None \<Rightarrow> None
                 | Some (k, rest) \<Rightarrow>
                     (case dropWhile is_space rest of
                        [] \<Rightarrow> None
                      | c # cs \<Rightarrow>
                          (if c \<noteq> CHR '':'' then None
                           else (case read_value n cs of
                                   None \<Rightarrow> None
                                 | Some (v, rest') \<Rightarrow>
                                     (case dropWhile is_space rest' of
                                        [] \<Rightarrow> None
                                      | d # ds \<Rightarrow>
                                          if d = CHR ''}'' then Some (JObject (acc @ [(k, v)]), ds)
                                          else if d = CHR '','' then read_members n (acc @ [(k, v)]) ds
                                          else None)))))))"

definition read_json :: "string \<Rightarrow> json option" where
  "read_json s =
     (case read_value (Suc (length s)) s of
        None \<Rightarrow> None
      | Some (v, rest) \<Rightarrow> if dropWhile is_space rest = [] then Some v else None)"

definition example_platform :: platform where
  "example_platform =
     \<lparr>JSON_parse = read_json, Number_toString = (\<lambda>n. ''0''),
      VITE_GEMINI_API_KEY = None, VITE_GEMINI_BASE_URL = None\<rparr>"

section \<open>Notions of the specification\<close>

text \<open>
  A value has a text when \<open>ToString\<close> does not throw on it: it is no object with an own
  key \<open>toString\<close> and no array that holds, at any depth, such an object.
\<close>

fun has_text :: "json \<Rightarrow> bool" where
  "has_text (JObject kvs) = (map_of kvs ''toString'' = None)"
| "has_text (JArray xs) = list_all has_text xs"
| "has_text v = True"

text \<open>The reason of a classification has a text, or is absent (and reads \<open>undefined\<close>).\<close>

definition reason_has_text :: "json \<Rightarrow> bool" where
  "reason_has_text typeResult =
     (case property ''reason'' typeResult of None \<Rightarrow> True | Some v \<Rightarrow> has_text v)"

text \<open>The data URI \<open>data:<mime>;base64,<payload>\<close>.\<close>

definition data_uri :: "string \<Rightarrow> string \<Rightarrow> string" where
  "data_uri m p = ''data:'' @ m @ '';base64,'' @ p"

text \<open>
  It is well formed when the media type is not empty and has no parameter, and neither
  part has a comma (the base64 alphabet has none).
\<close>

definition well_formed :: "string \<Rightarrow> string \<Rightarrow> bool" where
  "well_formed m p =
     (m \<noteq> [] \<and> CHR '';'' \<notin> set m \<and> CHR '','' \<notin> set m \<and> CHR '','' \<notin> set p)"

text \<open>
  The text of an image reference. For a media type that is an inherited property the
  text depends on the engine and is left out.
\<close>

definition render :: "image_url \<Rightarrow> string option" where
  "render u =
     (case u of
        Url s \<Rightarrow> Some s
      | DataUrl (Mime m) b \<Rightarrow>
          Some (''data:'' @ m @ '';base64,'' @ (case b of None \<Rightarrow> ''undefined'' | Some p \<Rightarrow> p))
      | DataUrl (Inherited k) b \<Rightarrow> None)"

text \<open>Encoding again the data URI that the program builds from an encoded image.\<close>

definition reencode :: "network \<Rightarrow> EncodedImage \<Rightarrow> trace \<Rightarrow> ((error + EncodedImage) \<times> trace) option" where
  "reencode net img t =
     map_option (\<lambda>u. convertImageToBase64 net u t) (render (DataUrl (mimeType img) (base64 img)))"

text \<open>
  The format of a reference is established, in the words of the specification: by a
  \<open>data:\<close> prefix with a media type of the allowed set, or, for a remote URL, by a file
  extension (the text after the last dot) of the allowed set.
\<close>

definition file_extension :: "string \<Rightarrow> string option" where
  "file_extension u =
     (if CHR ''.'' \<in> set u then Some (rev (takeWhile (\<lambda>c. c \<noteq> CHR ''.'') (rev u))) else None)"

definition allowed_formats :: "string list" where
  "allowed_formats = [''jpeg'', ''jpg'', ''png'', ''gif'', ''webp'']"

definition format_established :: "string \<Rightarrow> bool" where
  "format_established u =
     (if startsWith u ''data:'' then
        list_ex (\<lambda>f. startsWith u (''data:image/'' @ f)) allowed_formats
      else if startsWith u ''http://'' \<or> startsWith u ''https://'' then
        (case file_extension u of
           None \<Rightarrow> False
         | Some e \<Rightarrow> list_ex (\<lambda>f. toLowerCase e = f) allowed_formats)
      else False)"

text \<open>
  The same for an image source of \<open>analyzeImage\<close>: a string is its own reference, a
  blob has the data URL that is read from it, which starts with its media type.
\<close>

definition source_format_established :: "image_source \<Rightarrow> bool" where
  "source_format_established src =
     (case src of
        FromString s \<Rightarrow> format_established s
      | FromBlob b \<Rightarrow>
          (case dataURL b of
             None \<Rightarrow> False
           | Some u \<Rightarrow> format_established u))"

text \<open>
  The error that rejects a source whose format is not established: the error of the
  format for a data URI, a remote URL and a blob that was read; the error of the source
  for any other string; the error of the reader for a blob that cannot be read.
\<close>

definition rejection :: "image_source \<Rightarrow> error" where
  "rejection src =
     (case src of
        FromString s \<Rightarrow>
          (if startsWith s ''data:'' \<or> startsWith s ''http://'' \<or> startsWith s ''https://''
           then UnsupportedFormat else InvalidImageSource)
      | FromBlob b \<Rightarrow>
          (case dataURL b of
             None \<Rightarrow> FileReaderError
           | Some u \<Rightarrow> UnsupportedFormat))"

text \<open>The requests of a trace: the calls of the model, and the images fetched.\<close>

fun model_calls :: "trace \<Rightarrow> request list" where
  "model_calls [] = []"
| "model_calls (Fetch (POST u k b) # es) = POST u k b # model_calls es"
| "model_calls (e # es) = model_calls es"

fun image_fetches :: "trace \<Rightarrow> string list" where
  "image_fetches [] = []"
| "image_fetches (Fetch (GET u) # es) = u # image_fetches es"
| "image_fetches (e # es) = image_fetches es"

text \<open>
  The streaming loop on the whole text of a response that closes: the complete lines are
  handled in order, and \<open>onComplete\<close> is called at the end unless \<open>[DONE]\<close> returned
  before.
\<close>

definition whole_text ::
  "platform \<Rightarrow> (json \<Rightarrow> 'a \<Rightarrow> 'a option) \<Rightarrow> string \<Rightarrow> 'a state \<Rightarrow> (error + unit) \<times> 'a state" where
  "whole_text plat onChunk text st =
     (case process_lines plat onChunk (butlast (split_on (CHR 0x0A) text)) st of
        (True, st1) \<Rightarrow> (Inr (), st1)
      | (False, st1) \<Rightarrow> (Inr (), call_onComplete st1))"

text \<open>How often a trace calls \<open>onComplete\<close>, and how often \<open>onError\<close>.\<close>

fun completions :: "trace \<Rightarrow> nat" where
  "completions [] = 0"
| "completions (OnComplete # es) = Suc (completions es)"
| "completions (e # es) = completions es"

fun failures :: "trace \<Rightarrow> nat" where
  "failures [] = 0"
| "failures (OnError e # es) = Suc (failures es)"
| "failures (e # es) = failures es"

text \<open>
  The frames of the example of the specification, the value of a frame that carries a
  content delta, and the text of a response made of the four frames: each frame is
  followed by \<open>sep\<close>, the last one by \<open>closing\<close>.
\<close>

definition payload_foo :: string where
  "payload_foo = ''{\"choices\":[{\"delta\":{\"content\":\"foo\"}}]}''"

definition payload_bar :: string where
  "payload_bar = ''{\"choices\":[{\"delta\":{\"content\":\"bar\"}}]}''"

definition delta_frame :: "string \<Rightarrow> json" where
  "delta_frame s =
     JObject [(''choices'', JArray [JObject [(''delta'', JObject [(''content'', JString s)])]])]"

definition frames_text :: "string \<Rightarrow> string \<Rightarrow> string" where
  "frames_text sep closing =
     ''data: '' @ payload_foo @ sep @ ''data: garbage'' @ sep
     @ ''data: '' @ payload_bar @ sep @ ''data: [DONE]'' @ closing"

section \<open>Inputs of the worked examples\<close>

text \<open>A network that rejects every request, and a callback that does nothing.\<close>

definition no_network :: network where
  "no_network t req = Rejected"

definition ignore_chunk :: "json \<Rightarrow> unit \<Rightarrow> unit option" where
  "ignore_chunk c u = Some u"

definition llm_options :: CallGeminiOptions where
  "llm_options =
     \<lparr>apiKey = ''sk-test'', baseURL = None, temperature = None, maxTokens = None,
      detail = None, topP = None, thinking = None, user = None\<rparr>"

definition gemini_options :: Options where
  "gemini_options =
     \<lparr>apiKey = ''sk-test'', baseURL = None, temperature = None, maxTokens = None,
      detail = None\<rparr>"

text \<open>A network that answers every request with a stream of the given reads.\<close>

definition stream_response :: "string list \<Rightarrow> response" where
  "stream_response vs =
     \<lparr>ok = True, status = 200, statusText = ''OK'', json_body = None, blob_body = None,
      body = Some \<lparr>reads = vs, rejects = False\<rparr>\<rparr>"

definition stream_network :: "string list \<Rightarrow> network" where
  "stream_network vs t req = Resolved (stream_response vs)"

text \<open>The four frames, cut into three reads inside the frames.\<close>

definition example_reads :: "string list" where
  "example_reads =
     [''data: {\"choices\":[{\"delta\":{\"content\":\"foo\"}}]}'' @ [CHR 0x0A] @ ''data: gar'',
      ''bage'' @ [CHR 0x0A] @ ''data: {\"choices\":[{\"delta\":{\"con'',
      ''tent\":\"bar\"}}]}'' @ [CHR 0x0A] @ ''data: [DONE]'' @ [CHR 0x0A]]"

text \<open>A stream that ends as the provider's streams do: a finish reason, then \<open>[DONE]\<close>.\<close>

definition finished_reads :: "string list" where
  "finished_reads =
     [''data: {\"choices\":[{\"delta\":{},\"finish_reason\":\"stop\"}]}'' @ [CHR 0x0A, CHR 0x0A]
      @ ''data: [DONE]'' @ [CHR 0x0A, CHR 0x0A]]"

definition example_messages :: "Message list" where
  "example_messages = [\<lparr>role = User, content = Plain (Text ''hello'')\<rparr>]"

text \<open>A reply body with the given content, and a network that answers with a JSON body.\<close>

definition chat_body :: "string \<Rightarrow> json" where
  "chat_body c =
     JObject [(''choices'', JArray [JObject [(''message'', JObject [(''content'', JString c)])]])]"

definition json_response :: "json \<Rightarrow> response" where
  "json_response v =
     \<lparr>ok = True, status = 200, statusText = ''OK'', json_body = Some v, blob_body = None,
      body = None\<rparr>"






text \<open>
  A network for the orchestrator: it serves the image, answers the first call of the
  model with a classification of the given type, and every later call with an analysis.
\<close>

definition classification_text :: "string \<Rightarrow> string" where
  "classification_text kind =
     ''{\"imageType\":\"'' @ kind @ ''\",\"confidence\":0.9,\"reason\":\"seen\"}''"

definition analysis_text :: string where
  "analysis_text = ''{\"foods\":[],\"overallRisk\":\"safe\",\"suggestion\":\"ok\"}''"

definition image_response :: response where
  "image_response =
     \<lparr>ok = True, status = 200, statusText = ''OK'', json_body = None,
      blob_body = Some \<lparr>blob_type = ''image/jpeg'',
                         dataURL = Some ''data:image/jpeg;base64,QUJD''\<rparr>,
      body = None\<rparr>"

definition example_network :: "string \<Rightarrow> network" where
  "example_network kind t req =
     (case req of
        GET u \<Rightarrow> Resolved image_response
      | POST u k b \<Rightarrow>
          Resolved (json_response (chat_body
            (if model_calls t = [] then classification_text kind else analysis_text))))"

definition dish_url :: string where
  "dish_url = ''https://example.com/dish.jpg''"

definition png_uri :: string where
  "png_uri = ''data:image/png;base64,QUJD''"

definition png_image :: EncodedImage where
  "png_image = \<lparr>base64 = Some ''QUJD'', mimeType = Mime ''image/png''\<rparr>"

text \<open>The value of \<open>classification_text kind\<close>.\<close>

definition classification :: "string \<Rightarrow> json" where
  "classification kind =
     JObject [(''imageType'', JString kind), (''confidence'', JNum (9 / 10)),
              (''reason'', JString ''seen'')]"

text \<open>
  A network like \<open>example_network\<close> whose classification gives, as its reason, an object
  with the key \<open>toString\<close>.
\<close>

definition odd_classification_text :: "string \<Rightarrow> string" where
  "odd_classification_text kind =
     ''{\"imageType\":\"'' @ kind @ ''\",\"confidence\":0.9,\"reason\":{\"toString\":1}}''"

text \<open>The value of \<open>odd_classification_text kind\<close>.\<close>

definition odd_classification :: "string \<Rightarrow> json" where
  "odd_classification kind =
     JObject [(''imageType'', JString kind), (''confidence'', JNum (9 / 10)),
              (''reason'', JObject [(''toString'', JNum 1)])]"

definition odd_network :: "string \<Rightarrow> network" where
  "odd_network kind t req =
     (case req of
        GET u \<Rightarrow> Resolved image_response
      | POST u k b \<Rightarrow>
          Resolved (json_response (chat_body
            (if model_calls t = [] then odd_classification_text kind else analysis_text))))"

section \<open>Strings\<close>

lemma split_on_not_Nil: "split_on sep s \<noteq> []"
  by (induction s) (auto split: list.splits)

lemma split_on_free: "sep \<notin> set a \<Longrightarrow> split_on sep a = [a]"
  by (induction a) auto

lemma split_on_first: "sep \<notin> set a \<Longrightarrow> split_on sep (a @ sep # b) = a # split_on sep b"
  by (induction a) auto

lemma split_on_append:
  "split_on sep (x @ y)
     = butlast (split_on sep x)
       @ (last (split_on sep x) @ hd (split_on sep y)) # tl (split_on sep y)"
proof (induction x)
  case Nil
  then show ?case by (simp add: split_on_not_Nil)
next
  case (Cons c x)
  then show ?case
    by (cases "split_on sep x"; cases "butlast (split_on sep x)")
       (auto simp: split_on_not_Nil split: list.splits)
qed

lemma last_split_on_free: "sep \<notin> set (last (split_on sep s))"
  by (induction s) (auto simp: split_on_not_Nil split: list.splits)

lemma last_split_on:
  "last (split_on sep s) = rev (takeWhile (\<lambda>c. c \<noteq> sep) (rev s))"
proof (cases "sep \<in> set s")
  case False
  then have "\<forall>c\<in>set (rev s). c \<noteq> sep" by auto
  then have "takeWhile (\<lambda>c. c \<noteq> sep) (rev s) = rev s"
    by (rule takeWhile_eq_all_conv [THEN iffD2])
  moreover have "last (split_on sep s) = s"
    using False by (simp add: split_on_free)
  ultimately show ?thesis by (metis rev_rev_ident)
next
  case True
  then obtain a b where s: "s = a @ sep # b" and b: "sep \<notin> set b"
    by (meson split_list_last)
  have "takeWhile (\<lambda>c. c \<noteq> sep) (rev b @ sep # rev a) = rev b"
    using b by (subst takeWhile_append2) auto
  moreover have "last (split_on sep (a @ sep # b)) = b"
    using b by (simp add: split_on_append [of sep a "sep # b"] split_on_free)
  ultimately show ?thesis using s by simp
qed

lemma length_toLowerCase: "length (toLowerCase s) = length s"
  by (simp add: toLowerCase_def)

section \<open>Values and their texts\<close>

lemma those_None: "those ys = None \<longleftrightarrow> None \<in> set ys"
  by (induction ys) (auto split: option.splits)

lemma in_map_None: "None \<in> set (map f xs) \<longleftrightarrow> (\<exists>x\<in>set xs. f x = None)"
  by (induction xs) auto

text \<open>\<open>ToString\<close> throws exactly on the values without a text.\<close>

lemma to_string_None: "to_string num v = None \<longleftrightarrow> \<not> has_text v"
proof (induction v rule: has_text.induct)
  case (1 kvs)
  show ?case by simp
next
  case (2 xs)
  have "to_string num (JArray xs) = None
          \<longleftrightarrow> (\<exists>x\<in>set xs. (if x = JNull then Some [] else to_string num x) = None)"
    by (simp add: those_None in_map_None del: set_map)
  also have "\<dots> \<longleftrightarrow> (\<exists>x\<in>set xs. x \<noteq> JNull \<and> to_string num x = None)"
    by (auto split: if_splits)
  also have "\<dots> \<longleftrightarrow> (\<exists>x\<in>set xs. \<not> has_text x)"
  proof -
    have "x \<noteq> JNull" if "\<not> has_text x" for x
      using that by auto
    then show ?thesis using 2 by blast
  qed
  finally show ?case by (simp add: list_all_iff)
qed simp_all

lemma ToString_reason:
  "ToString num (property ''reason'' typeResult) = None \<longleftrightarrow> \<not> reason_has_text typeResult"
  by (simp add: ToString_def reason_has_text_def to_string_None split: option.splits)

section \<open>The encoder\<close>

lemma data_match_data_uri:
  assumes "m \<noteq> []" "CHR '';'' \<notin> set m" "CHR '','' \<notin> set m"
  shows "data_match (data_uri m p) = Some m"
proof -
  have "takeWhile (\<lambda>c. c \<noteq> CHR '';'' \<and> c \<noteq> CHR '','') (m @ '';base64,'' @ p) = m"
    using assms by (subst takeWhile_append2) auto
  then show ?thesis using assms by (simp add: data_match_def data_uri_def)
qed

lemma payload_data_uri:
  assumes "CHR '','' \<notin> set m" "CHR '','' \<notin> set p"
  shows "nth_opt (split_on CHR '','' (data_uri m p)) (Suc 0) = Some p"
proof -
  have "data_uri m p = (''data:'' @ m @ '';base64'') @ CHR '','' # p"
    by (simp add: data_uri_def)
  moreover have "CHR '','' \<notin> set (''data:'' @ m @ '';base64'')"
    using assms by simp
  ultimately have "split_on CHR '','' (data_uri m p)
      = (''data:'' @ m @ '';base64'') # split_on CHR '','' p"
    using split_on_first by metis
  then show ?thesis using assms by (simp add: split_on_free)
qed

lemma encode_data_uri:
  assumes "well_formed m p"
  shows "convertImageToBase64 net (data_uri m p) t
           = (Inr \<lparr>base64 = Some p, mimeType = Mime m\<rparr>, t)"
proof -
  have "startsWith (data_uri m p) ''data:''"
    by (simp add: data_uri_def startsWith_def)
  then show ?thesis using assms
    by (simp add: convertImageToBase64_def getMimeTypeFromUrl_def well_formed_def
        data_match_data_uri payload_data_uri)
qed

text \<open>
  C9. A well-formed data URI \<open>data:<mime>;base64,<payload>\<close> is encoded to exactly its
  payload and its media type, and the trace is unchanged: no request is issued. Encoding
  is idempotent: the data URI built from the result is encoded to the same result.
\<close>

theorem data_uri_encoded_losslessly_and_idempotently:
  assumes "well_formed m p"
  shows "convertImageToBase64 net (data_uri m p) t
           = (Inr \<lparr>base64 = Some p, mimeType = Mime m\<rparr>, t)
         \<and> reencode net \<lparr>base64 = Some p, mimeType = Mime m\<rparr> t
           = Some (Inr \<lparr>base64 = Some p, mimeType = Mime m\<rparr>, t)"
proof -
  have "render (DataUrl (Mime m) (Some p)) = Some (data_uri m p)"
    by (simp add: render_def data_uri_def)
  then show ?thesis
    using encode_data_uri [OF assms] by (simp add: reencode_def)
qed

theorem data_uri_encoded_losslessly_and_idempotently_witness:
  "well_formed ''image/png'' ''QUJD''
   \<and> convertImageToBase64 (\<lambda>t r. Rejected) ''data:image/png;base64,QUJD'' []
       = (Inr \<lparr>base64 = Some ''QUJD'', mimeType = Mime ''image/png''\<rparr>, [])
   \<and> reencode (\<lambda>t r. Rejected) \<lparr>base64 = Some ''QUJD'', mimeType = Mime ''image/png''\<rparr> []
       = Some (Inr \<lparr>base64 = Some ''QUJD'', mimeType = Mime ''image/png''\<rparr>, [])"
  using data_uri_encoded_losslessly_and_idempotently
          [of "''image/png''" "''QUJD''" "\<lambda>t r. Rejected" "[]"]
  by (simp add: well_formed_def data_uri_def)

section \<open>The format check\<close>

lemma startsWith_length: "startsWith u p \<Longrightarrow> length p \<le> length u"
  unfolding startsWith_def by (metis length_take min.cobounded1)

lemma url_not_extension:
  assumes "startsWith u ''http://'' \<or> startsWith u ''https://''"
  shows "toLowerCase u \<notin> set [''jpg'', ''jpeg'', ''png'', ''gif'', ''webp'']"
proof -
  have "length u \<ge> 7" using assms startsWith_length by fastforce
  then have "length (toLowerCase u) \<ge> 7" by (simp add: length_toLowerCase)
  then show ?thesis by auto
qed

text \<open>
  \<open>isValidImageFormat\<close> accepts exactly the references whose format is established in
  the sense of the specification.
\<close>

lemma isValidImageFormat_iff: "isValidImageFormat u = format_established u"
proof (cases "startsWith u ''data:''")
  case True
  then show ?thesis
    by (simp add: isValidImageFormat_def format_established_def supportedFormats_def
        allowed_formats_def)
next
  case False
  show ?thesis
  proof (cases "startsWith u ''http://'' \<or> startsWith u ''https://''")
    case url: True
    show ?thesis
    proof (cases "CHR ''.'' \<in> set u")
      case True
      then show ?thesis using False url
        by (auto simp: isValidImageFormat_def format_established_def file_extension_def
            last_split_on allowed_formats_def)
    next
      case nodot: False
      then have "last (split_on CHR ''.'' u) = u" by (simp add: split_on_free)
      then show ?thesis using False url nodot url_not_extension [OF url]
        by (simp add: isValidImageFormat_def format_established_def file_extension_def)
    qed
  next
    case False
    then show ?thesis using \<open>\<not> startsWith u ''data:''\<close>
      by (simp add: isValidImageFormat_def format_established_def)
  qed
qed

lemma encoder_errors:
  "fst (convertImageToBase64 net url t) = Inl e \<Longrightarrow> e = CannotLoadImage \<or> e = FileReaderError"
  by (auto simp: convertImageToBase64_def fetch_def split: if_splits fetched.splits option.splits)

text \<open>
  C5, as the claim states it, fails: the encoder takes a data URI of the media type
  \<open>text/plain\<close>, whose format is not established, and returns an encoded image.
\<close>

theorem encoder_accepts_text_plain:
  "\<not> format_established ''data:text/plain;base64,QUJD''
   \<and> convertImageToBase64 no_network ''data:text/plain;base64,QUJD'' []
       = (Inr \<lparr>base64 = Some ''QUJD'', mimeType = Mime ''text/plain''\<rparr>, [])"
  by (simp add: format_established_def allowed_formats_def startsWith_def
      convertImageToBase64_def getMimeTypeFromUrl_def data_match_def)

text \<open>
  C5, amended. The format is checked by \<open>analyzeImage\<close> of llm.ts. For an image source
  whose format is not established (a string that neither starts with \<open>data:image/\<close>
  and a format of the allowed set nor is an http(s) URL with an extension of the allowed
  set; a blob whose data URL does not start so, or cannot be read), the call fails and
  the state is unchanged, so no request was issued. The error is \<open>UnsupportedFormat\<close>
  for a data URI, an http(s) URL and a blob that was read; it is 'Invalid image source'
  for any other string, and the error of the reader for a blob that cannot be read. The
  encoder of gemini-api.ts checks no format and never fails with \<open>UnsupportedFormat\<close>.
\<close>

theorem analyzeImage_rejects_unsupported_format:
  assumes "\<not> source_format_established imageSource"
  shows "analyzeImage plat net imageSource prompt onChunk options st
           = (Inl (rejection imageSource), st)
         \<and> fst (convertImageToBase64 net url t) \<noteq> Inl UnsupportedFormat"
proof -
  have enc: "fst (convertImageToBase64 net url t) \<noteq> Inl UnsupportedFormat"
    using encoder_errors [of net url t UnsupportedFormat] by auto
  have "analyzeImage plat net imageSource prompt onChunk options st
          = (Inl (rejection imageSource), st)"
  proof (cases imageSource)
    case (FromString s)
    then show ?thesis
      using assms
      by (auto simp: analyzeImage_def image_reference_def rejection_def
          source_format_established_def isValidImageFormat_iff)
  next
    case (FromBlob b)
    then show ?thesis
      using assms
      by (auto simp: analyzeImage_def image_reference_def fileToBase64_def rejection_def
          source_format_established_def isValidImageFormat_iff split: option.splits)
  qed
  then show ?thesis using enc by simp
qed

theorem analyzeImage_rejects_unsupported_format_witness:
  "\<not> source_format_established (FromString ''data:text/plain;base64,QUJD'')
   \<and> analyzeImage example_platform no_network (FromString ''data:text/plain;base64,QUJD'')
        ''describe'' ignore_chunk llm_options ([], ())
       = (Inl UnsupportedFormat, ([], ()))
   \<and> \<not> source_format_established (FromString ''photo.bmp'')
   \<and> analyzeImage example_platform no_network (FromString ''photo.bmp'')
        ''describe'' ignore_chunk llm_options ([], ())
       = (Inl InvalidImageSource, ([], ()))"
proof -
  have f: "\<not> source_format_established (FromString ''data:text/plain;base64,QUJD'')"
    by (simp add: source_format_established_def format_established_def allowed_formats_def
        startsWith_def)
  have g: "\<not> source_format_established (FromString ''photo.bmp'')"
    by (simp add: source_format_established_def format_established_def startsWith_def)
  show ?thesis
    using f g
      analyzeImage_rejects_unsupported_format
        [OF f, where plat = example_platform and net = no_network
           and prompt = "''describe''" and onChunk = ignore_chunk
           and options = llm_options and st = "([], ())"]
      analyzeImage_rejects_unsupported_format
        [OF g, where plat = example_platform and net = no_network
           and prompt = "''describe''" and onChunk = ignore_chunk
           and options = llm_options and st = "([], ())"]
    by (simp add: rejection_def startsWith_def)
qed

section \<open>The streaming loop\<close>

lemma process_lines_append:
  "process_lines plat f (ls1 @ ls2) st =
     (case process_lines plat f ls1 st of
        (True, st1) \<Rightarrow> (True, st1)
      | (False, st1) \<Rightarrow> process_lines plat f ls2 st1)"
  by (induction ls1 arbitrary: st) (auto simp: Let_def split: prod.splits)

lemma butlast_split_on_append:
  "butlast (split_on sep (x @ y))
     = butlast (split_on sep x) @ butlast (split_on sep (last (split_on sep x) @ y))"
proof -
  have "split_on sep (last (split_on sep x) @ y)
          = (last (split_on sep x) @ hd (split_on sep y)) # tl (split_on sep y)"
    using split_on_append [of sep "last (split_on sep x)" y]
    by (simp add: split_on_free last_split_on_free)
  then show ?thesis
    by (simp add: split_on_append [of sep x y] butlast_append)
qed

text \<open>
  How the text of a response is cut into reads does not matter: the loop handles the
  complete lines of the whole text. The buffer never holds a line feed.
\<close>

lemma read_loop_whole_text:
  "CHR 0x0A \<notin> set buffer \<Longrightarrow>
   read_loop plat f vs False buffer st = whole_text plat f (buffer @ concat vs) st"
proof (induction vs arbitrary: buffer st)
  case Nil
  then show ?case by (simp add: whole_text_def split_on_free)
next
  case (Cons v vs)
  have nl: "CHR 0x0A \<notin> set (last (split_on (CHR 0x0A) (buffer @ v)))"
    by (rule last_split_on_free)
  have b: "butlast (split_on (CHR 0x0A) (buffer @ v @ concat vs))
      = butlast (split_on (CHR 0x0A) (buffer @ v))
        @ butlast (split_on (CHR 0x0A)
                     (last (split_on (CHR 0x0A) (buffer @ v)) @ concat vs))"
    using butlast_split_on_append [of "CHR 0x0A" "buffer @ v" "concat vs"] by simp
  show ?case
    by (simp add: Cons.IH [OF nl] whole_text_def b process_lines_append Let_def
        split: prod.splits bool.splits)
qed

lemma stream_call_whole_text:
  assumes "resolve_apiKey plat options = Some key" and "key \<noteq> []"
    and "\<And>req. net t req = Resolved r"
    and "ok r" and "body r = Some rd" and "\<not> rejects rd"
  shows "\<exists>req. callGeminiAPIForStream plat net msgs f options (t, a)
           = whole_text plat f (concat (reads rd)) (t @ [Fetch req], a)"
proof -
  obtain c cs where "key = c # cs" using assms(2) by (cases key) auto
  then show ?thesis
    using assms read_loop_whole_text [of "[]" plat f "reads rd"]
    by (simp add: callGeminiAPIForStream_def fetch_def) blast
qed

lemmas stream_eval =
  whole_text_def frames_text_def payload_foo_def payload_bar_def delta_frame_def
  trim_def trimStart_def trimEnd_def white_space_def startsWith_def handle_data_def
  check_finish_def delta_content_def finish_reason_def call_onChunk_def call_onComplete_def
  append_chunk_def

lemma frames_whole_text:
  assumes "JSON_parse plat payload_foo = Some (delta_frame ''foo'')"
    and "JSON_parse plat ''garbage'' = None"
    and "JSON_parse plat payload_bar = Some (delta_frame ''bar'')"
    and "sep = [CHR 0x0A] \<or> sep = [CHR 0x0A, CHR 0x0A]"
    and "closing = [] \<or> closing = sep"
  shows "whole_text plat (append_chunk plat) (frames_text sep closing) (t, [])
     = (Inr (), t @ [OnChunk (JString ''foo''), OnChunk (JString ''bar''), OnComplete],
        ''foobar'')"
proof -
  consider "sep = [CHR 0x0A]" "closing = []"
    | "sep = [CHR 0x0A]" "closing = [CHR 0x0A]"
    | "sep = [CHR 0x0A, CHR 0x0A]" "closing = []"
    | "sep = [CHR 0x0A, CHR 0x0A]" "closing = [CHR 0x0A, CHR 0x0A]"
    using assms(4,5) by auto
  then show ?thesis
  proof cases
    case 1
    then show ?thesis using assms(1-3) by (simp add: stream_eval)
  next
    case 2
    then show ?thesis using assms(1-3) by (simp add: stream_eval)
  next
    case 3
    then show ?thesis using assms(1-3) by (simp add: stream_eval)
  next
    case 4
    then show ?thesis using assms(1-3) by (simp add: stream_eval)
  qed
qed

text \<open>
  C4. The response is the four frames of the example, each followed by one or two line
  feeds (the last one possibly by none), cut into reads in any way. If \<open>JSON.parse\<close>
  reads the two content frames and rejects \<open>garbage\<close>, the call of the streaming
  transport succeeds; after its request the trace holds \<open>onChunk\<close> with foo,
  \<open>onChunk\<close> with bar and one \<open>onComplete\<close>, no \<open>onError\<close>; and the text accumulated by
  the chunk callback is foobar.
\<close>

theorem stream_foo_garbage_bar_done:
  assumes "JSON_parse plat payload_foo = Some (delta_frame ''foo'')"
    and "JSON_parse plat ''garbage'' = None"
    and "JSON_parse plat payload_bar = Some (delta_frame ''bar'')"
    and "resolve_apiKey plat options = Some key" and "key \<noteq> []"
    and "\<And>req. net t req = Resolved r"
    and "ok r" and "body r = Some rd" and "\<not> rejects rd"
    and "concat (reads rd) = frames_text sep closing"
    and "sep = [CHR 0x0A] \<or> sep = [CHR 0x0A, CHR 0x0A]"
    and "closing = [] \<or> closing = sep"
  shows "\<exists>req. callGeminiAPIForStream plat net msgs (append_chunk plat) options (t, [])
           = (Inr (),
              t @ [Fetch req, OnChunk (JString ''foo''), OnChunk (JString ''bar''), OnComplete],
              ''foobar'')"
proof -
  obtain req where
    "callGeminiAPIForStream plat net msgs (append_chunk plat) options (t, [])
       = whole_text plat (append_chunk plat) (frames_text sep closing) (t @ [Fetch req], [])"
    using stream_call_whole_text
            [where net = net and t = t and f = "append_chunk plat" and a = "[]"
               and msgs = msgs, OF assms(4) assms(5) assms(6) assms(7) assms(8) assms(9)]
          assms(10)
    by auto
  then show ?thesis
    using frames_whole_text [OF assms(1-3) assms(11,12), of "t @ [Fetch req]"] by auto
qed

lemma example_platform_frames:
  "JSON_parse example_platform payload_foo = Some (delta_frame ''foo'')"
  "JSON_parse example_platform ''garbage'' = None"
  "JSON_parse example_platform payload_bar = Some (delta_frame ''bar'')"
  by (simp_all add: example_platform_def read_json_def is_space_def startsWith_def
      read_number_def read_unsigned_def is_digit_def digit_value_def
      payload_foo_def payload_bar_def delta_frame_def)

theorem stream_foo_garbage_bar_done_witness:
  "\<exists>req. callGeminiAPIForStream example_platform (stream_network example_reads)
            example_messages (append_chunk example_platform) gemini_options ([], [])
          = (Inr (),
             [Fetch req, OnChunk (JString ''foo''), OnChunk (JString ''bar''), OnComplete],
             ''foobar'')"
proof -
  have key: "resolve_apiKey example_platform gemini_options = Some ''sk-test''"
    by (simp add: resolve_apiKey_def or_else_def gemini_options_def example_platform_def)
  have net: "\<And>req. stream_network example_reads [] req
               = Resolved (stream_response example_reads)"
    by (simp add: stream_network_def)
  have whole: "concat (reads \<lparr>reads = example_reads, rejects = False\<rparr>)
               = frames_text [CHR 0x0A] [CHR 0x0A]"
    by (simp add: example_reads_def frames_text_def payload_foo_def payload_bar_def)
  show ?thesis
    using stream_foo_garbage_bar_done
            [where net = "stream_network example_reads" and t = "[]"
               and msgs = example_messages
               and rd = "\<lparr>reads = example_reads, rejects = False\<rparr>",
             OF example_platform_frames key _ net _ _ _ whole]
    by (simp add: stream_response_def)
qed

text \<open>
  What a streaming call adds to the trace: on success no \<open>onError\<close> and at least one
  \<open>onComplete\<close>; on failure either nothing (the key is missing), or events without
  \<open>onError\<close> followed by one \<open>onError\<close>, which is the last event: no chunk is
  delivered after it.
\<close>

lemma failures_append: "failures (a @ b) = failures a + failures b"
  by (induction a rule: failures.induct) auto

lemma completions_append: "completions (a @ b) = completions a + completions b"
  by (induction a rule: completions.induct) auto

lemma handle_data_trace:
  "\<exists>evs. fst (handle_data plat f d st) = fst st @ evs \<and> failures evs = 0"
  by (auto simp: handle_data_def check_finish_def call_onChunk_def call_onComplete_def
      failures_append split: option.splits json.splits)

lemma process_lines_trace:
  "\<exists>evs. fst (snd (process_lines plat f ls st)) = fst st @ evs \<and> failures evs = 0
         \<and> (fst (process_lines plat f ls st) \<longrightarrow> completions evs \<ge> 1)"
proof (induction ls arbitrary: st)
  case Nil
  then show ?case by simp
next
  case (Cons l ls)
  obtain evs where h: "fst (handle_data plat f (drop 6 (trim l)) st) = fst st @ evs" "failures evs = 0"
    using handle_data_trace by blast
  obtain evs1 where a: "fst (snd (process_lines plat f ls st)) = fst st @ evs1" "failures evs1 = 0"
    "fst (process_lines plat f ls st) \<longrightarrow> completions evs1 \<ge> 1"
    using Cons.IH [of st] by blast
  obtain evs2 where b: "fst (snd (process_lines plat f ls (handle_data plat f (drop 6 (trim l)) st)))
      = fst (handle_data plat f (drop 6 (trim l)) st) @ evs2" "failures evs2 = 0"
    "fst (process_lines plat f ls (handle_data plat f (drop 6 (trim l)) st)) \<longrightarrow> completions evs2 \<ge> 1"
    using Cons.IH [of "handle_data plat f (drop 6 (trim l)) st"] by blast
  show ?case
    using h a b
    by (auto simp: Let_def call_onComplete_def failures_append completions_append)
qed

lemma read_loop_trace:
  "\<exists>evs. fst (snd (read_loop plat f vs rej buffer st)) = fst st @ evs
         \<and> (case fst (read_loop plat f vs rej buffer st) of
               Inr u \<Rightarrow> failures evs = 0 \<and> completions evs \<ge> 1
             | Inl e \<Rightarrow> (\<exists>evs'. evs = evs' @ [OnError e] \<and> failures evs' = 0))"
proof (induction vs arbitrary: buffer st)
  case Nil
  then show ?case by (auto simp: catch_onError_def call_onComplete_def)
next
  case (Cons v vs)
  let ?p = "process_lines plat f (butlast (split_on (CHR 0x0A) (buffer @ v))) st"
  obtain evs1 where a: "fst (snd ?p) = fst st @ evs1" "failures evs1 = 0"
    "fst ?p \<longrightarrow> completions evs1 \<ge> 1"
    using process_lines_trace by blast
  show ?case
  proof (cases "fst ?p")
    case True
    then show ?thesis using a by (auto simp: Let_def split: prod.splits)
  next
    case False
    obtain evs2 where b: "fst (snd (read_loop plat f vs rej (last (split_on (CHR 0x0A) (buffer @ v))) (snd ?p)))
          = fst (snd ?p) @ evs2"
       "(case fst (read_loop plat f vs rej (last (split_on (CHR 0x0A) (buffer @ v))) (snd ?p)) of
               Inr u \<Rightarrow> failures evs2 = 0 \<and> completions evs2 \<ge> 1
             | Inl e \<Rightarrow> (\<exists>evs'. evs2 = evs' @ [OnError e] \<and> failures evs' = 0))"
      using Cons.IH by blast
    have r: "read_loop plat f (v # vs) rej buffer st
       = read_loop plat f vs rej (last (split_on (CHR 0x0A) (buffer @ v))) (snd ?p)"
      using False by (auto simp: Let_def split: prod.splits)
    show ?thesis
      unfolding r using a b
      by (auto simp: failures_append completions_append split: sum.splits)
  qed
qed

lemma stream_call_trace:
  "\<exists>evs. fst (snd (callGeminiAPIForStream plat net msgs f options st)) = fst st @ evs
         \<and> (case fst (callGeminiAPIForStream plat net msgs f options st) of
               Inr u \<Rightarrow> failures evs = 0 \<and> completions evs \<ge> 1
             | Inl e \<Rightarrow> evs = [] \<or> (\<exists>evs'. evs = evs' @ [OnError e] \<and> failures evs' = 0))"
proof -
  have *: "\<exists>evs. fst (snd (read_loop plat f vs rej [] (fst st @ [Fetch req], a))) = fst st @ evs
         \<and> (case fst (read_loop plat f vs rej [] (fst st @ [Fetch req], a)) of
               Inr u \<Rightarrow> failures evs = 0 \<and> completions evs \<ge> 1
             | Inl e \<Rightarrow> evs = [] \<or> (\<exists>evs'. evs = evs' @ [OnError e] \<and> failures evs' = 0))"
    for vs rej req a
  proof -
    obtain evs where e: "fst (snd (read_loop plat f vs rej [] (fst st @ [Fetch req], a))) = (fst st @ [Fetch req]) @ evs"
      "(case fst (read_loop plat f vs rej [] (fst st @ [Fetch req], a)) of
               Inr u \<Rightarrow> failures evs = 0 \<and> completions evs \<ge> 1
             | Inl e \<Rightarrow> (\<exists>evs'. evs = evs' @ [OnError e] \<and> failures evs' = 0))"
      using read_loop_trace [of plat f vs rej "[]" "(fst st @ [Fetch req], a)"] by auto
    show ?thesis
      apply (rule exI [where x = "Fetch req # evs"])
      using e by (auto simp: failures_append completions_append split: sum.splits)
  qed
  show ?thesis
    using *
    by (auto simp: callGeminiAPIForStream_def fetch_def catch_onError_def Let_def
        split: option.splits list.splits fetched.splits)
qed

text \<open>
  C3 fails on the code. A stream that ends as the provider's streams do, with a frame
  that carries a finish reason and then the frame \<open>[DONE]\<close>, makes each streaming
  transport call \<open>onComplete\<close> twice: after the finish reason the loop goes on, and
  \<open>[DONE]\<close> calls it again.
\<close>

theorem onComplete_twice_on_finish_reason_then_done:
  "completions (fst (snd (callGeminiAPIForStream example_platform
       (stream_network finished_reads) example_messages ignore_chunk gemini_options
       ([], ())))) = 2
   \<and> completions (fst (snd (callGemini25ProWithHistory example_platform
       (stream_network finished_reads) example_messages ignore_chunk llm_options
       ([], ())))) = 2"
  by (simp add: callGeminiAPIForStream_def callGemini25ProWithHistory_def send_stream_def
      budget_exceeds_def example_messages_def llm_options_def gemini_options_def
      resolve_apiKey_def resolve_baseURL_def or_else_def example_platform_def fetch_def
      stream_network_def stream_response_def finished_reads_def
      read_json_def is_space_def startsWith_def
      trim_def trimStart_def trimEnd_def white_space_def handle_data_def check_finish_def
      delta_content_def finish_reason_def call_onChunk_def call_onComplete_def
      ignore_chunk_def)

section \<open>The non-streaming transport\<close>





section \<open>The checks before the request\<close>







section \<open>The orchestrator\<close>

lemmas example_eval =
  smartAnalyzeImage_def analyze_by_type_def analyzeFoodPhoto_def convertImageToBase64_def
  callGeminiAPIForJSON_def typeMessages_def getMimeTypeFromUrl_def extension_mime_def
  data_match_def mimeTypes_def resolve_apiKey_def resolve_baseURL_def or_else_def
  gemini_options_def example_platform_def fetch_def example_network_def image_response_def
  json_response_def chat_body_def classification_text_def analysis_text_def
  classification_def message_content_def ToString_def read_json_def is_space_def
  startsWith_def read_number_def read_unsigned_def is_digit_def digit_value_def
  digits_value_def dish_url_def png_uri_def png_image_def toLowerCase_def lower_char_def
  allergen_separator_def default_baseURL_def

text \<open>
  C1 fails on the code. For a remote image that the classifier reports as food, the
  orchestrator encodes the image before the classification and \<open>analyzeFoodPhoto\<close>
  encodes it again: the same URL is fetched twice in one call.
\<close>

theorem food_photo_fetched_twice:
  "fst (smartAnalyzeImage example_platform (example_network ''food'') dish_url [''peanut'']
          gemini_options [])
     = Inr \<lparr>imageType = ''food'', confidence = Some (JNum (9 / 10)),
            result = JObject [(''foods'', JArray []), (''overallRisk'', JString ''safe''),
                              (''suggestion'', JString ''ok'')],
            errorMessage = None\<rparr>
   \<and> image_fetches (snd (smartAnalyzeImage example_platform (example_network ''food'')
                          dish_url [''peanut''] gemini_options []))
     = [dish_url, dish_url]"
  by (simp add: example_eval)

lemma smartAnalyzeImage_classified:
  assumes "convertImageToBase64 net imageUrl t = (Inr img, t1)"
    and "callGeminiAPIForJSON plat net (typeMessages img options) options t1
           = (Inr typeResult, t2)"
    and "typeResult \<noteq> JNull"
  shows "smartAnalyzeImage plat net imageUrl userAllergens options t
           = analyze_by_type plat net imageUrl userAllergens options img typeResult t2"
  using assms by (cases typeResult) (simp_all add: smartAnalyzeImage_def)

lemma smartAnalyzeImage_null:
  assumes "convertImageToBase64 net imageUrl t = (Inr img, t1)"
    and "callGeminiAPIForJSON plat net (typeMessages img options) options t1
           = (Inr JNull, t2)"
  shows "smartAnalyzeImage plat net imageUrl userAllergens options t = (Inl TypeError, t2)"
  using assms by (simp add: smartAnalyzeImage_def)

text \<open>
  The double fetch does not depend on the example: for every remote image that is
  classified as food, the call fetches the image twice.
\<close>

lemma image_fetches_append: "image_fetches (t @ es) = image_fetches t @ image_fetches es"
  by (induction t rule: image_fetches.induct) auto

lemma json_call_no_image_fetch:
  "image_fetches (snd (callGeminiAPIForJSON plat net msgs options t)) = image_fetches t"
  by (auto simp: callGeminiAPIForJSON_def fetch_def Let_def image_fetches_append
      split: option.splits list.splits fetched.splits json.splits)

lemma remote_image_fetched:
  "\<not> startsWith url ''data:''
   \<Longrightarrow> image_fetches (snd (convertImageToBase64 net url t)) = image_fetches t @ [url]"
  by (auto simp: convertImageToBase64_def fetch_def image_fetches_append
      split: fetched.splits option.splits)

lemma food_branch_fetches_again:
  assumes "\<not> startsWith imageUrl ''data:''"
    and "convertImageToBase64 net imageUrl t = (Inr img, t1)"
    and "callGeminiAPIForJSON plat net (typeMessages img options) options t1
           = (Inr typeResult, t2)"
    and "property ''imageType'' typeResult = Some (JString ''food'')"
  shows "image_fetches (snd (smartAnalyzeImage plat net imageUrl userAllergens options t))
           = image_fetches t @ [imageUrl, imageUrl]"
proof -
  have "typeResult \<noteq> JNull" using assms(4) by auto
  then have s: "smartAnalyzeImage plat net imageUrl userAllergens options t
           = analyze_by_type plat net imageUrl userAllergens options img typeResult t2"
    using smartAnalyzeImage_classified [OF assms(2,3)] by simp
  have t1: "image_fetches t1 = image_fetches t @ [imageUrl]"
    using remote_image_fetched [OF assms(1), of net t] assms(2) by simp
  have t2: "image_fetches t2 = image_fetches t1"
    using json_call_no_image_fetch [of plat net "typeMessages img options" options t1] assms(3)
    by simp
  have "snd (analyze_by_type plat net imageUrl userAllergens options img typeResult t2)
          = snd (analyzeFoodPhoto plat net imageUrl userAllergens options t2)"
    using assms(4) by (auto simp: analyze_by_type_def split: prod.splits sum.splits)
  moreover have "image_fetches (snd (analyzeFoodPhoto plat net imageUrl userAllergens options t2))
          = image_fetches t2 @ [imageUrl]"
    using remote_image_fetched [OF assms(1), of net t2]
    by (auto simp: analyzeFoodPhoto_def json_call_no_image_fetch split: prod.splits sum.splits)
  ultimately show ?thesis using s t1 t2 by simp
qed




lemma analyze_by_type_result:
  assumes "analyze_by_type plat net imageUrl userAllergens options img typeResult t
             = (Inr r, t3)"
  shows "(result r \<noteq> JNull
            \<longrightarrow> property ''imageType'' typeResult
                  \<in> {Some (JString ''ingredients''), Some (JString ''menu''),
                      Some (JString ''food'')})
         \<and> imageType r \<in> {''ingredients'', ''menu'', ''food'', ''unknown''}"
  using assms
  by (auto simp: analyze_by_type_def split: if_splits prod.splits sum.splits option.splits)

text \<open>The two stages of the examples: the data URI is encoded, the image is classified.\<close>

lemma example_encoded:
  "convertImageToBase64 net png_uri [] = (Inr png_image, [])"
  by (simp add: convertImageToBase64_def getMimeTypeFromUrl_def data_match_def
      startsWith_def png_uri_def png_image_def)

lemma example_classified:
  assumes "kind = ''unknown'' \<or> kind = ''receipt''"
  shows "callGeminiAPIForJSON example_platform (example_network kind)
           (typeMessages png_image gemini_options) gemini_options []
         = (Inr (classification kind),
            snd (callGeminiAPIForJSON example_platform (example_network kind)
                   (typeMessages png_image gemini_options) gemini_options []))"
proof -
  have "fst (callGeminiAPIForJSON example_platform (example_network kind)
               (typeMessages png_image gemini_options) gemini_options [])
          = Inr (classification kind)"
    using assms by (auto simp: example_eval)
  then show ?thesis by (metis prod.collapse)
qed

lemma odd_classified:
  assumes "kind = ''unknown'' \<or> kind = ''receipt''"
  shows "callGeminiAPIForJSON example_platform (odd_network kind)
           (typeMessages png_image gemini_options) gemini_options []
         = (Inr (odd_classification kind),
            snd (callGeminiAPIForJSON example_platform (odd_network kind)
                   (typeMessages png_image gemini_options) gemini_options []))"
proof -
  have "fst (callGeminiAPIForJSON example_platform (odd_network kind)
               (typeMessages png_image gemini_options) gemini_options [])
          = Inr (odd_classification kind)"
    using assms
    by (auto simp: example_eval odd_network_def odd_classification_text_def
        odd_classification_def)
  then show ?thesis by (metis prod.collapse)
qed




text \<open>
  C10, as the claim states it, fails: the classifier gives the type \<open>receipt\<close>, outside
  the documented values, and as its reason an object with the key \<open>toString\<close>; the call
  is not normalised to a result of type \<open>unknown\<close> but fails with a TypeError.
\<close>

theorem other_type_with_odd_reason_fails:
  "fst (callGeminiAPIForJSON example_platform (odd_network ''receipt'')
          (typeMessages png_image gemini_options) gemini_options [])
     = Inr (odd_classification ''receipt'')
   \<and> property ''imageType'' (odd_classification ''receipt'') = Some (JString ''receipt'')
   \<and> fst (smartAnalyzeImage example_platform (odd_network ''receipt'') png_uri [''peanut'']
            gemini_options [])
     = Inl TypeError"
  by (simp add: example_eval odd_network_def odd_classification_text_def
      odd_classification_def)

text \<open>
  C10, amended. When the image is encoded and the classification call returns a result
  that is not \<open>null\<close> and whose \<open>imageType\<close> is none of the strings \<open>ingredients\<close>,
  \<open>menu\<close> and \<open>food\<close> (another string, another value, or absent): if the classifier's
  reason has a text, \<open>smartAnalyzeImage\<close> returns the result of type \<open>unknown\<close> with
  \<open>result = null\<close> and an \<open>errorMessage\<close> that ends with the text of the reason; if
  not, it fails with a TypeError. Whenever \<open>smartAnalyzeImage\<close> returns, a \<open>result\<close>
  that is not \<open>null\<close> comes with one of the three strings as the classifier's
  \<open>imageType\<close>, and the returned \<open>imageType\<close> is one of the four documented values.
\<close>

theorem imageType_normalised:
  assumes "convertImageToBase64 net imageUrl t = (Inr img, t1)"
    and "callGeminiAPIForJSON plat net (typeMessages img options) options t1
           = (Inr typeResult, t2)"
  shows "(typeResult \<noteq> JNull
          \<and> property ''imageType'' typeResult
               \<notin> {Some (JString ''ingredients''), Some (JString ''menu''),
                   Some (JString ''food'')}
          \<longrightarrow> (reason_has_text typeResult
                \<longrightarrow> (\<exists>reason. ToString (Number_toString plat)
                                 (property ''reason'' typeResult) = Some reason
                       \<and> smartAnalyzeImage plat net imageUrl userAllergens options t
                           = (Inr \<lparr>imageType = ''unknown'',
                                   confidence = property ''confidence'' typeResult,
                                   result = JNull,
                                   errorMessage = Some (unknown_type_message @ reason)\<rparr>,
                              t2)))
              \<and> (\<not> reason_has_text typeResult
                \<longrightarrow> smartAnalyzeImage plat net imageUrl userAllergens options t
                      = (Inl TypeError, t2)))
       \<and> (\<forall>r t3. smartAnalyzeImage plat net imageUrl userAllergens options t = (Inr r, t3)
            \<longrightarrow> (result r \<noteq> JNull
                   \<longrightarrow> property ''imageType'' typeResult
                        \<in> {Some (JString ''ingredients''), Some (JString ''menu''),
                            Some (JString ''food'')})
                \<and> imageType r \<in> {''ingredients'', ''menu'', ''food'', ''unknown''})"
proof -
  have other: "analyze_by_type plat net imageUrl userAllergens options img typeResult t2
      = (case ToString (Number_toString plat) (property ''reason'' typeResult) of
           None \<Rightarrow> (Inl TypeError, t2)
         | Some reason \<Rightarrow>
             (Inr \<lparr>imageType = ''unknown'',
                   confidence = property ''confidence'' typeResult,
                   result = JNull,
                   errorMessage = Some (unknown_type_message @ reason)\<rparr>, t2))"
    if "property ''imageType'' typeResult
             \<notin> {Some (JString ''ingredients''), Some (JString ''menu''),
                 Some (JString ''food'')}"
    using that by (simp add: analyze_by_type_def)
  have first: "(reason_has_text typeResult
                \<longrightarrow> (\<exists>reason. ToString (Number_toString plat)
                                 (property ''reason'' typeResult) = Some reason
                       \<and> smartAnalyzeImage plat net imageUrl userAllergens options t
                           = (Inr \<lparr>imageType = ''unknown'',
                                   confidence = property ''confidence'' typeResult,
                                   result = JNull,
                                   errorMessage = Some (unknown_type_message @ reason)\<rparr>,
                              t2)))
              \<and> (\<not> reason_has_text typeResult
                \<longrightarrow> smartAnalyzeImage plat net imageUrl userAllergens options t
                      = (Inl TypeError, t2))"
    if n: "typeResult \<noteq> JNull"
      and o: "property ''imageType'' typeResult
             \<notin> {Some (JString ''ingredients''), Some (JString ''menu''),
                 Some (JString ''food'')}"
  proof (cases "ToString (Number_toString plat) (property ''reason'' typeResult)")
    case None
    then show ?thesis
      using smartAnalyzeImage_classified [OF assms n] other [OF o]
        ToString_reason [of "Number_toString plat" typeResult]
      by simp
  next
    case (Some reason)
    then show ?thesis
      using smartAnalyzeImage_classified [OF assms n] other [OF o]
        ToString_reason [of "Number_toString plat" typeResult]
      by simp
  qed
  have second: "(result r \<noteq> JNull
                   \<longrightarrow> property ''imageType'' typeResult
                        \<in> {Some (JString ''ingredients''), Some (JString ''menu''),
                            Some (JString ''food'')})
                \<and> imageType r \<in> {''ingredients'', ''menu'', ''food'', ''unknown''}"
    if s: "smartAnalyzeImage plat net imageUrl userAllergens options t = (Inr r, t3)"
    for r t3
  proof -
    have "typeResult \<noteq> JNull"
    proof
      assume "typeResult = JNull"
      then have "smartAnalyzeImage plat net imageUrl userAllergens options t
                   = (Inl TypeError, t2)"
        using smartAnalyzeImage_null [OF assms(1), of plat options t2] assms(2) by simp
      then show False using s by simp
    qed
    then have "analyze_by_type plat net imageUrl userAllergens options img typeResult t2
                 = (Inr r, t3)"
      using smartAnalyzeImage_classified [OF assms] s by simp
    then show ?thesis by (rule analyze_by_type_result)
  qed
  show ?thesis using first second by blast
qed

theorem imageType_normalised_witness:
  "classification ''receipt'' \<noteq> JNull
   \<and> property ''imageType'' (classification ''receipt'')
        \<notin> {Some (JString ''ingredients''), Some (JString ''menu''), Some (JString ''food'')}
   \<and> reason_has_text (classification ''receipt'')
   \<and> fst (smartAnalyzeImage example_platform (example_network ''receipt'') png_uri
            [''peanut''] gemini_options [])
       = Inr \<lparr>imageType = ''unknown'', confidence = Some (JNum (9 / 10)), result = JNull,
              errorMessage = Some (unknown_type_message @ ''seen'')\<rparr>
   \<and> \<not> reason_has_text (odd_classification ''receipt'')
   \<and> fst (smartAnalyzeImage example_platform (odd_network ''receipt'') png_uri
            [''peanut''] gemini_options [])
       = Inl TypeError"
proof -
  have k: "classification ''receipt'' \<noteq> JNull"
    "property ''imageType'' (classification ''receipt'')
        \<notin> {Some (JString ''ingredients''), Some (JString ''menu''), Some (JString ''food'')}"
    "reason_has_text (classification ''receipt'')"
    "odd_classification ''receipt'' \<noteq> JNull"
    "property ''imageType'' (odd_classification ''receipt'')
        \<notin> {Some (JString ''ingredients''), Some (JString ''menu''), Some (JString ''food'')}"
    "\<not> reason_has_text (odd_classification ''receipt'')"
    by (simp_all add: classification_def odd_classification_def reason_has_text_def)
  have c: "callGeminiAPIForJSON example_platform (example_network ''receipt'')
             (typeMessages png_image gemini_options) gemini_options []
           = (Inr (classification ''receipt''),
              snd (callGeminiAPIForJSON example_platform (example_network ''receipt'')
                     (typeMessages png_image gemini_options) gemini_options []))"
    using example_classified [of "''receipt''"] by simp
  have d: "callGeminiAPIForJSON example_platform (odd_network ''receipt'')
             (typeMessages png_image gemini_options) gemini_options []
           = (Inr (odd_classification ''receipt''),
              snd (callGeminiAPIForJSON example_platform (odd_network ''receipt'')
                     (typeMessages png_image gemini_options) gemini_options []))"
    using odd_classified [of "''receipt''"] by simp
  show ?thesis
    using k
      imageType_normalised [OF example_encoded c, where userAllergens = "[''peanut'']"]
      imageType_normalised [OF example_encoded d, where userAllergens = "[''peanut'']"]
    by (auto simp: classification_def ToString_def)
qed


end
